theory Spec2Isabelle
  imports Complex_Main "HOL-Library.Sublist" "HOL-Library.AList"
begin

section \<open>JSON values and the Python operations the service applies to them\<close>

text \<open>
  The service receives its catalog snapshot, its manual records and the request body as
  decoded JSON, and applies Python's dynamically typed operations to them.  A value is
  modelled by the datatype below; an operation that raises is a function into
  \<open>py_error + 'a\<close>.  Python's \<open>float\<close> is read as \<open>real\<close> (rounding is
  not modelled) and a \<open>str\<close> as a list of ASCII characters.
\<close>

datatype json =
    JNull
  | JBool bool
  | JInt int
  | JFloat real
  | JStr string
  | JArr "json list"
  | JObj "(string \<times> json) list"

datatype py_error = AttributeError | TypeError | ValueError | UpstreamError | DatabaseError

definition rbind :: "py_error + 'a \<Rightarrow> ('a \<Rightarrow> py_error + 'b) \<Rightarrow> py_error + 'b" where
  "rbind m f = (case m of Inl e \<Rightarrow> Inl e | Inr x \<Rightarrow> f x)"

fun rmap :: "('a \<Rightarrow> py_error + 'b) \<Rightarrow> 'a list \<Rightarrow> py_error + 'b list" where
  "rmap f [] = Inr []"
| "rmap f (x # xs) = rbind (f x) (\<lambda>y. rbind (rmap f xs) (\<lambda>ys. Inr (y # ys)))"

text \<open>\<open>bool(v)\<close>: the truth value Python gives a decoded JSON value.\<close>

fun truthy :: "json \<Rightarrow> bool" where
  "truthy JNull = False"
| "truthy (JBool b) = b"
| "truthy (JInt i) = (i \<noteq> 0)"
| "truthy (JFloat r) = (r \<noteq> 0)"
| "truthy (JStr s) = (s \<noteq> [])"
| "truthy (JArr xs) = (xs \<noteq> [])"
| "truthy (JObj kvs) = (kvs \<noteq> [])"

text \<open>\<open>d.get(k)\<close> and \<open>d.get(k, default)\<close>; only a dict has the method.\<close>

fun dict_get :: "json \<Rightarrow> string \<Rightarrow> json \<Rightarrow> py_error + json" where
  "dict_get (JObj kvs) k d = Inr (case map_of kvs k of None \<Rightarrow> d | Some v \<Rightarrow> v)"
| "dict_get _ k d = Inl AttributeError"

text \<open>Iterating a value with \<open>for\<close>: a list gives its items, a string its
  characters, a dict its keys; nothing else is iterable.\<close>

fun py_iter :: "json \<Rightarrow> py_error + json list" where
  "py_iter (JArr xs) = Inr xs"
| "py_iter (JStr s) = Inr (map (\<lambda>c. JStr [c]) s)"
| "py_iter (JObj kvs) = Inr (map (\<lambda>kv. JStr (fst kv)) kvs)"
| "py_iter _ = Inl TypeError"

text \<open>\<open>s.lower()\<close> on ASCII text.\<close>

definition is_upper :: "char \<Rightarrow> bool" where
  "is_upper c = (let n = (of_char c :: nat) in 65 \<le> n \<and> n \<le> 90)"

text \<open>An upper-case letter and its lower-case letter differ in the bit of weight 32.\<close>

definition lower_char :: "char \<Rightarrow> char" where
  "lower_char c =
     (if is_upper c
      then (case c of Char b0 b1 b2 b3 b4 b5 b6 b7 \<Rightarrow> Char b0 b1 b2 b3 b4 True b6 b7)
      else c)"

definition lower :: "string \<Rightarrow> string" where
  "lower s = map lower_char s"

fun py_lower :: "json \<Rightarrow> py_error + string" where
  "py_lower (JStr s) = Inr (lower s)"
| "py_lower _ = Inl AttributeError"

text \<open>\<open>s.strip()\<close>: leading and trailing ASCII whitespace removed.\<close>

definition is_space :: "char \<Rightarrow> bool" where
  "is_space c = (let n = (of_char c :: nat) in (9 \<le> n \<and> n \<le> 13) \<or> (28 \<le> n \<and> n \<le> 32))"

definition strip :: "string \<Rightarrow> string" where
  "strip s = rev (dropWhile is_space (rev (dropWhile is_space s)))"

fun py_strip :: "json \<Rightarrow> py_error + string" where
  "py_strip (JStr s) = Inr (strip s)"
| "py_strip _ = Inl AttributeError"

text \<open>\<open>s.split(",")\<close>: the pieces between commas; an empty string gives one empty
  piece.\<close>

fun split_comma :: "string \<Rightarrow> string list" where
  "split_comma [] = [[]]"
| "split_comma (c # cs) =
     (if c = CHR '','' then [] # split_comma cs
      else (case split_comma cs of p # ps \<Rightarrow> (c # p) # ps | [] \<Rightarrow> [[c]]))"

text \<open>\<open>p in s\<close> on strings: \<open>p\<close> occurs in \<open>s\<close> as a contiguous run.\<close>

fun substr_in :: "string \<Rightarrow> string \<Rightarrow> bool" where
  "substr_in p [] = (p = [])"
| "substr_in p (c # cs) = (prefix p (c # cs) \<or> substr_in p cs)"

text \<open>\<open>float(v)\<close>.  A string is read as a plain decimal (optional sign, digits, optional
  point); the exponent, \<open>inf\<close>, \<open>nan\<close> and digit-group spellings Python also accepts
  are outside the model and count as unparsable.\<close>

definition digit_of :: "char \<Rightarrow> nat option" where
  "digit_of c =
     (let n = (of_char c :: nat) in if 48 \<le> n \<and> n \<le> 57 then Some (n - 48) else None)"

fun digits_val :: "string \<Rightarrow> nat \<Rightarrow> nat option" where
  "digits_val [] acc = Some acc"
| "digits_val (c # cs) acc =
     (case digit_of c of None \<Rightarrow> None | Some d \<Rightarrow> digits_val cs (10 * acc + d))"

definition float_of_str :: "string \<Rightarrow> real option" where
  "float_of_str s =
     (let t = strip s;
          neg = (t \<noteq> [] \<and> hd t = CHR ''-'');
          u = (if t \<noteq> [] \<and> (hd t = CHR ''-'' \<or> hd t = CHR ''+'') then tl t else t);
          ip = takeWhile (\<lambda>c. c \<noteq> CHR ''.'') u;
          fp = drop (length ip + 1) u
      in if ip = [] \<and> fp = [] then None
         else (case (digits_val ip 0, digits_val fp 0) of
                 (Some a, Some b) \<Rightarrow>
                   Some ((if neg then - 1 else 1) * (real a + real b / 10 ^ length fp))
               | _ \<Rightarrow> None))"

fun py_float :: "json \<Rightarrow> py_error + real" where
  "py_float (JInt i) = Inr (real_of_int i)"
| "py_float (JFloat r) = Inr r"
| "py_float (JBool b) = Inr (if b then 1 else 0)"
| "py_float (JStr s) = (case float_of_str s of None \<Rightarrow> Inl ValueError | Some r \<Rightarrow> Inr r)"
| "py_float _ = Inl TypeError"

text \<open>\<open>v >= x\<close> against a float: numbers compare, anything else raises.\<close>

fun py_ge :: "json \<Rightarrow> real \<Rightarrow> py_error + bool" where
  "py_ge (JInt i) x = Inr (x \<le> real_of_int i)"
| "py_ge (JFloat r) x = Inr (x \<le> r)"
| "py_ge (JBool b) x = Inr (x \<le> (if b then 1 else 0))"
| "py_ge _ x = Inl TypeError"

section \<open>Great-circle distance\<close>

text \<open>\<open>math.sqrt\<close> and \<open>math.asin\<close> raise outside their domains.\<close>

definition py_sqrt :: "real \<Rightarrow> py_error + real" where
  "py_sqrt x = (if x < 0 then Inl ValueError else Inr (sqrt x))"

definition py_asin :: "real \<Rightarrow> py_error + real" where
  "py_asin x = (if x < - 1 \<or> 1 < x then Inl ValueError else Inr (arcsin x))"

definition radians :: "real \<Rightarrow> real" where
  "radians d = d * pi / 180"

definition calculate_distance :: "real \<Rightarrow> real \<Rightarrow> real \<Rightarrow> real \<Rightarrow> py_error + real" where
  "calculate_distance lat1' lon1' lat2' lon2' =
     (let lat1 = radians lat1'; lon1 = radians lon1';
          lat2 = radians lat2'; lon2 = radians lon2';
          dlat = lat2 - lat1;
          dlon = lon2 - lon1;
          a = (sin (dlat / 2))\<^sup>2 + cos lat1 * cos lat2 * (sin (dlon / 2))\<^sup>2
      in rbind (py_sqrt a) (\<lambda>q. rbind (py_asin q) (\<lambda>h.
           let c = 2 * h; r = 6371 in Inr (c * r))))"

text \<open>\<open>get_location_boost\<close>: the keyword heuristic used when the candidate has a
  location string but no coordinates.\<close>

definition location_keywords :: "string list" where
  "location_keywords = [''near'', ''nearby'', ''close'', ''local'', ''around'']"

definition get_location_boost :: "json \<Rightarrow> json \<Rightarrow> json \<Rightarrow> py_error + real" where
  "get_location_boost user_lat user_lon candidate_location =
     (if \<not> truthy user_lat \<or> \<not> truthy user_lon \<or> \<not> truthy candidate_location then Inr 0
      else rbind (py_lower candidate_location) (\<lambda>l.
        Inr (min (foldl (\<lambda>boost keyword. if substr_in keyword l then boost + 0.05 else boost)
                    0 location_keywords) 0.2)))"

section \<open>Candidate building\<close>

datatype kind =
    Category | Subcategory | Subsubcategory
  | Member | Tag | Review
  | ManualCategory | ManualMember | ManualProfession | ManualLocation

text \<open>
  A candidate is a Python dict.  Its keys are the fields below; a key the dict does not
  carry holds the value every later \<open>cand.get\<close> reads for it (\<open>None\<close>, or the default
  \<open>0\<close> for \<open>rating\<close> and \<open>priority_score\<close>; \<open>featured\<close> is only read for its truth
  value).  The key \<open>text\<close> is the field \<open>ctext\<close>, and \<open>type\<close> the field \<open>kind\<close>.
  The text is a raw JSON value while candidates are emitted and a string once
  the dedup step has called \<open>.lower()\<close> on it.
\<close>

record 'a cand =
  ctext :: 'a
  kind :: kind
  rating :: json
  location :: json
  profile_url :: json
  thumbnail_url :: json
  member_id :: json
  latitude :: json
  longitude :: json
  featured :: bool
  plan_level :: json
  priority_score :: real
  last_updated :: json
  promo_badge :: json
  hours :: json

definition plain_cand :: "'a \<Rightarrow> kind \<Rightarrow> 'a cand" where
  "plain_cand t k =
     \<lparr>ctext = t, kind = k, rating = JInt 0, location = JNull, profile_url = JNull,
      thumbnail_url = JNull, member_id = JNull, latitude = JNull, longitude = JNull,
      featured = False, plan_level = JNull, priority_score = 0, last_updated = JNull,
      promo_badge = JNull, hours = JNull\<rparr>"

definition with_text :: "'a cand \<Rightarrow> 'b \<Rightarrow> kind \<Rightarrow> 'b cand" where
  "with_text c t k =
     \<lparr>ctext = t, kind = k, rating = rating c, location = location c,
      profile_url = profile_url c, thumbnail_url = thumbnail_url c, member_id = member_id c,
      latitude = latitude c, longitude = longitude c, featured = featured c,
      plan_level = plan_level c, priority_score = priority_score c,
      last_updated = last_updated c, promo_badge = promo_badge c, hours = hours c\<rparr>"

text \<open>One category record: the top label, \<open>Top - Sub\<close> and \<open>Top - Sub - SubSub\<close>.\<close>

definition category_candidates :: "json \<Rightarrow> py_error + json cand list" where
  "category_candidates cat =
     rbind (dict_get cat ''top_category'' (JStr [])) (\<lambda>v1. rbind (py_strip v1) (\<lambda>top.
     rbind (dict_get cat ''sub_category'' (JStr [])) (\<lambda>v2. rbind (py_strip v2) (\<lambda>sub.
     rbind (dict_get cat ''sub_sub_category'' (JStr [])) (\<lambda>v3. rbind (py_strip v3) (\<lambda>subsub.
       Inr ((if top \<noteq> [] then [plain_cand (JStr top) Category] else []) @
            (if top \<noteq> [] \<and> sub \<noteq> []
             then [plain_cand (JStr (top @ '' - '' @ sub)) Subcategory] else []) @
            (if top \<noteq> [] \<and> sub \<noteq> [] \<and> subsub \<noteq> []
             then [plain_cand (JStr (top @ '' - '' @ sub @ '' - '' @ subsub)) Subsubcategory]
             else []))))))))"

text \<open>\<open>(mem.get("tags") or "").split(",")\<close>.\<close>

definition member_tags :: "json \<Rightarrow> py_error + string list" where
  "member_tags v =
     (case (if truthy v then v else JStr []) of
        JStr s \<Rightarrow> Inr (split_comma s)
      | _ \<Rightarrow> Inl AttributeError)"

text \<open>One member record: the name, each non-empty trimmed tag, and the review text, all
  sharing the member's metadata.\<close>

definition member_candidates :: "json \<Rightarrow> py_error + json cand list" where
  "member_candidates mem =
     rbind (dict_get mem ''name'' (JStr [])) (\<lambda>v1. rbind (py_strip v1) (\<lambda>name.
     rbind (dict_get mem ''tags'' JNull) (\<lambda>v2. rbind (member_tags v2) (\<lambda>tags.
     rbind (dict_get mem ''location'' (JStr [])) (\<lambda>v3. rbind (py_strip v3) (\<lambda>loc.
     rbind (dict_get mem ''reviews'' (JStr [])) (\<lambda>reviews.
     rbind (dict_get mem ''rating'' (JInt 0)) (\<lambda>v4. rbind (py_float v4) (\<lambda>rtg.
     rbind (dict_get mem ''profile_url'' JNull) (\<lambda>purl.
     rbind (dict_get mem ''thumbnail_url'' JNull) (\<lambda>turl.
     rbind (dict_get mem ''id'' JNull) (\<lambda>mid.
     rbind (dict_get mem ''latitude'' JNull) (\<lambda>lat.
     rbind (dict_get mem ''longitude'' JNull) (\<lambda>lon.
     rbind (dict_get mem ''featured'' (JBool False)) (\<lambda>feat.
     rbind (dict_get mem ''plan_level'' JNull) (\<lambda>plan.
     rbind (dict_get mem ''priority_score'' (JInt 0)) (\<lambda>v5. rbind (py_float v5) (\<lambda>prio.
     rbind (dict_get mem ''last_updated'' JNull) (\<lambda>upd.
     rbind (dict_get mem ''promo_badge'' JNull) (\<lambda>promo.
     rbind (dict_get mem ''hours'' JNull) (\<lambda>hrs.
       let base_cand =
             \<lparr>ctext = JStr name, kind = Member, rating = JFloat rtg, location = JStr loc,
              profile_url = purl, thumbnail_url = turl, member_id = mid,
              latitude = lat, longitude = lon, featured = truthy feat,
              plan_level = plan, priority_score = prio, last_updated = upd,
              promo_badge = promo, hours = hrs\<rparr>
       in Inr ((if name \<noteq> [] then [base_cand] else []) @
               map (\<lambda>t. with_text base_cand (JStr t) Tag)
                 (filter (\<lambda>t. t \<noteq> []) (map strip tags)) @
               (if truthy reviews then [with_text base_cand reviews Review] else [])
              ))))))))))))))))))))))"

text \<open>The manual-data table: its active rows, in table order, as (type, decoded content).
  \<open>get_manual_data()\<close> returns them all, \<open>get_manual_data(t)\<close> the contents of type
  \<open>t\<close>.\<close>

type_synonym manual_rows = "(string \<times> json) list"

definition get_manual_data :: "manual_rows \<Rightarrow> string \<Rightarrow> json list" where
  "get_manual_data rows data_type = map snd (filter (\<lambda>row. fst row = data_type) rows)"

definition manual_candidates :: "string \<times> json \<Rightarrow> py_error + json cand list" where
  "manual_candidates item =
     (let data_type = fst item; content = snd item in
      if data_type = ''category'' then
        rbind (dict_get content ''name'' (JStr [])) (\<lambda>n. Inr [plain_cand n ManualCategory])
      else if data_type = ''member'' then
        rbind (dict_get content ''name'' (JStr [])) (\<lambda>name.
        rbind (dict_get content ''location'' (JStr [])) (\<lambda>loc.
        rbind (dict_get content ''rating'' (JInt 0)) (\<lambda>rtg.
          Inr (if truthy name
               then [(plain_cand name ManualMember)\<lparr>rating := rtg, location := loc\<rparr>]
               else []))))
      else if data_type = ''profession'' then
        rbind (dict_get content ''name'' (JStr [])) (\<lambda>n. Inr [plain_cand n ManualProfession])
      else if data_type = ''location'' then
        rbind (dict_get content ''name'' (JStr [])) (\<lambda>n. Inr [plain_cand n ManualLocation])
      else Inr [])"

text \<open>The candidates in emission order: categories, then members with their tags and
  reviews, then manual data.\<close>

definition emit_candidates :: "manual_rows \<Rightarrow> json \<Rightarrow> py_error + json cand list" where
  "emit_candidates rows site_data =
     rbind (dict_get site_data ''categories'' (JArr [])) (\<lambda>v1. rbind (py_iter v1) (\<lambda>cats.
     rbind (rmap category_candidates cats) (\<lambda>cs.
     rbind (dict_get site_data ''members'' (JArr [])) (\<lambda>v2. rbind (py_iter v2) (\<lambda>mems.
     rbind (rmap member_candidates mems) (\<lambda>ms.
     rbind (rmap manual_candidates rows) (\<lambda>mc.
       Inr (concat cs @ concat ms @ concat mc))))))))"

text \<open>The dedup loop: a candidate is kept when its lower-cased text has not been seen.\<close>

fun dedup :: "json cand list \<Rightarrow> string set \<Rightarrow> py_error + string cand list" where
  "dedup [] seen = Inr []"
| "dedup (c # cs) seen =
     (case ctext c of
        JStr s \<Rightarrow>
          if lower s \<notin> seen
          then rbind (dedup cs (insert (lower s) seen)) (\<lambda>uniq. Inr (with_text c s (kind c) # uniq))
          else dedup cs seen
      | _ \<Rightarrow> Inl AttributeError)"

definition build_candidates :: "manual_rows \<Rightarrow> json \<Rightarrow> py_error + string cand list" where
  "build_candidates rows site_data =
     rbind (emit_candidates rows site_data) (\<lambda>candidates. dedup candidates {})"

section \<open>Quality controls and synonyms\<close>

text \<open>\<open>get_blacklist\<close> and \<open>get_whitelist\<close>: the lower-cased \<open>term\<close> of every row of
  the type whose term is truthy.\<close>

definition row_term :: "json \<Rightarrow> py_error + string list" where
  "row_term item =
     rbind (dict_get item ''term'' JNull) (\<lambda>t.
       if truthy t then rbind (py_lower t) (\<lambda>s. Inr [s]) else Inr [])"

definition get_blacklist :: "manual_rows \<Rightarrow> py_error + string list" where
  "get_blacklist rows =
     rbind (rmap row_term (get_manual_data rows ''blacklist'')) (\<lambda>ts. Inr (concat ts))"

definition get_whitelist :: "manual_rows \<Rightarrow> py_error + string list" where
  "get_whitelist rows =
     rbind (rmap row_term (get_manual_data rows ''whitelist'')) (\<lambda>ts. Inr (concat ts))"

text \<open>\<open>get_synonyms_map\<close>: a dict from base term to expansion terms; a later row with the
  same base replaces the terms and keeps the key's position.\<close>

definition synonym_row :: "json \<Rightarrow> py_error + (string \<times> string list) list" where
  "synonym_row item =
     rbind (dict_get item ''base'' JNull) (\<lambda>b.
     rbind (py_lower (if truthy b then b else JStr [])) (\<lambda>base.
     rbind (dict_get item ''terms'' (JArr [])) (\<lambda>v. rbind (py_iter v) (\<lambda>ts.
     rbind (rmap py_lower ts) (\<lambda>terms.
       Inr (if base \<noteq> [] then [(base, terms)] else []))))))"

definition get_synonyms_map :: "manual_rows \<Rightarrow> py_error + (string \<times> string list) list" where
  "get_synonyms_map rows =
     rbind (rmap synonym_row (get_manual_data rows ''synonym'')) (\<lambda>rs.
       Inr (foldl (\<lambda>maps (base, terms). AList.update base terms maps) [] (concat rs)))"

section \<open>External collaborators and process-wide state\<close>

text \<open>
  What the service reads from outside the process during one request: the manual-data
  table, the per-user preference aggregates of the history store, the embedding model
  (with the cosine similarity taken of its vectors), the BM25 scorer (with the tokenizer
  in front of it), the named-entity recogniser, the clocks, and whether the store accepts
  writes.  A collaborator that can fail returns a sum.
\<close>

record env =
  manual_data :: manual_rows
  get_user_preferences :: "json \<Rightarrow> py_error + (string \<rightharpoonup> real)"
  get_user_negative_preferences :: "json \<Rightarrow> py_error + (string \<rightharpoonup> real)"
  semantic_scores :: "string \<Rightarrow> string list \<Rightarrow> py_error + real list"
  bm25_scores :: "string \<Rightarrow> string list \<Rightarrow> py_error + real list"
  detect_locations :: "string \<Rightarrow> string list"
  now_ts :: real
  weekday :: string
  clock :: string
  db_insert_ok :: bool
  db_update_ok :: bool

record card =
  card_title :: string
  card_member_id :: json
  card_profile_url :: json
  card_thumbnail_url :: json
  card_rating :: json
  card_location :: json
  card_distance_km :: "real option"
  card_promo_badge :: json
  card_featured :: bool

record top_candidate =
  top_text :: string
  top_type :: kind
  top_score :: real
  top_distance_km :: "real option"

record debug_info =
  debug_intent :: string
  debug_city :: "string option"
  top_candidates :: "top_candidate list"

text \<open>The third component \<open>rank_candidates\<close> returns: \<open>None\<close>, the debug trace, the
  cold-start reason, or (from the conditional expressions that bind looser than the
  tuple's commas) a nested \<open>(suggestions, cards, None)\<close> tuple.\<close>

datatype debug_ret =
    NoDebug
  | DebugTrace debug_info
  | DebugReason string
  | DebugTuple "json list" "card list"

type_synonym cache_key = "string \<times> json \<times> json \<times> json \<times> string \<times> json"

record cache_entry =
  cached_ts :: real
  cached_suggestions :: "json list"
  cached_cards :: "card list"
  cached_debug :: "debug_info option"

record history_row =
  row_user_id :: json
  row_query :: string
  row_suggestions :: "json list"
  row_location :: json
  row_timestamp :: real
  row_ab_variant :: json

text \<open>The module-level dictionaries, the \<open>search_history\<close> table, and two counters
  recording how often the embedding model and the BM25 scorer have been invoked.\<close>

record world =
  USER_HISTORY_CACHE :: "json \<Rightarrow> string list"
  SUGGESTION_CACHE :: "cache_key \<rightharpoonup> cache_entry"
  POPULAR_QUERIES :: "string \<Rightarrow> nat"
  query_patterns :: "string \<Rightarrow> nat"
  successful_suggestions :: "string \<rightharpoonup> int"
  location_patterns :: "string \<Rightarrow> nat"
  search_history :: "history_row list"
  encode_calls :: nat
  bm25_calls :: nat

definition SUGGESTION_CACHE_TTL_SECONDS :: real where
  "SUGGESTION_CACHE_TTL_SECONDS = 300"

definition WEIGHT_SEMANTIC :: real where "WEIGHT_SEMANTIC = 0.7"
definition WEIGHT_BM25 :: real where "WEIGHT_BM25 = 0.3"
definition BOOST_HISTORY :: real where "BOOST_HISTORY = 0.1"
definition BOOST_HIGH_RATING :: real where "BOOST_HIGH_RATING = 0.1"
definition BOOST_LOCATION_MATCH :: real where "BOOST_LOCATION_MATCH = 0.1"
definition BOOST_LEARNED_PATTERN :: real where "BOOST_LEARNED_PATTERN = 0.15"

text \<open>A list or a dict cannot be a dictionary key.  (Python also identifies the keys
  \<open>1\<close>, \<open>1.0\<close> and \<open>True\<close>; here they are different user ids.)\<close>

fun hashable :: "json \<Rightarrow> bool" where
  "hashable (JArr xs) = False"
| "hashable (JObj kvs) = False"
| "hashable _ = True"

text \<open>SQLite binds numbers, strings and \<open>None\<close> as statement parameters; a list or a dict
  makes \<open>execute\<close> raise.\<close>

fun sql_bindable :: "json \<Rightarrow> bool" where
  "sql_bindable (JArr xs) = False"
| "sql_bindable (JObj kvs) = False"
| "sql_bindable _ = True"

section \<open>Hybrid ranking\<close>

fun join_space :: "string list \<Rightarrow> string" where
  "join_space [] = []"
| "join_space [p] = p"
| "join_space (p # ps) = p @ '' '' @ join_space ps"

definition expand_query :: "(string \<times> string list) list \<Rightarrow> string \<Rightarrow> string" where
  "expand_query synonyms_map query =
     join_space (query #
       concat (map snd (filter (\<lambda>bt. substr_in (fst bt) (lower query)) synonyms_map)))"

text \<open>\<open>hybrid_rank\<close>: the query is expanded with the manual synonyms, the embedding model
  is invoked once, then the BM25 scorer once, and the two score lists are combined.\<close>

definition hybrid_rank ::
  "env \<Rightarrow> world \<Rightarrow> string \<Rightarrow> string cand list \<Rightarrow> (py_error + (string cand \<times> real) list) \<times> world"
where
  "hybrid_rank e w query candidates =
     (case get_synonyms_map (manual_data e) of
        Inl err \<Rightarrow> (Inl err, w)
      | Inr synonyms_map \<Rightarrow>
          let expanded_query = expand_query synonyms_map query;
              texts = map ctext candidates;
              w1 = w\<lparr>encode_calls := encode_calls w + 1\<rparr>
          in (case semantic_scores e expanded_query texts of
                Inl err \<Rightarrow> (Inl err, w1)
              | Inr sem \<Rightarrow>
                  let w2 = w1\<lparr>bm25_calls := bm25_calls w1 + 1\<rparr>
                  in (case bm25_scores e expanded_query texts of
                        Inl err \<Rightarrow> (Inl err, w2)
                      | Inr bm \<Rightarrow>
                          (Inr (zip candidates
                                  (map2 (\<lambda>s b. WEIGHT_SEMANTIC * s + WEIGHT_BM25 * b) sem bm)),
                           w2))))"

section \<open>Suggestion rewriting\<close>

definition detect_intent :: "string \<Rightarrow> string" where
  "detect_intent query =
     (let q = lower query in
      if list_ex (\<lambda>w. substr_in w q) [''book'', ''schedule'', ''reserve''] then ''book''
      else if list_ex (\<lambda>w. substr_in w q) [''hire'', ''find'', ''near me'', ''nearby''] then ''hire''
      else if list_ex (\<lambda>w. substr_in w q) [''review'', ''reviews'', ''rating''] then ''review''
      else if list_ex (\<lambda>w. substr_in w q) [''compare'', ''vs'', ''best''] then ''compare''
      else ''generic'')"

text \<open>A template is its literal pieces around the \<open>{base}\<close> and \<open>{city}\<close> fields.\<close>

datatype piece = Lit string | Base | City

definition TEMPLATES :: "piece list list" where
  "TEMPLATES =
     [[Lit ''Top-rated '', Base, Lit '' near you''],
      [Lit ''Affordable '', Base, Lit '' in '', City],
      [Lit ''Trusted '', Base, Lit '' nearby''],
      [Lit ''Best '', Base, Lit '' in '', City],
      [Lit ''Experienced '', Base, Lit '' near me'']]"

definition INTENT_TEMPLATES :: "string \<rightharpoonup> piece list list" where
  "INTENT_TEMPLATES =
     [''book'' \<mapsto>
        [[Lit ''Book '', Base, Lit '' in '', City],
         [Lit ''Schedule with '', Base, Lit '' near you''],
         [Lit ''Reserve '', Base, Lit '' today'']],
      ''hire'' \<mapsto>
        [[Lit ''Top-rated '', Base, Lit '' near you''],
         [Lit ''Best '', Base, Lit '' in '', City],
         [Lit ''Trusted '', Base, Lit '' nearby'']],
      ''review'' \<mapsto>
        [[Lit ''Highest-rated '', Base, Lit '' in '', City],
         [Base, Lit '' with great reviews''],
         [Lit ''Most trusted '', Base, Lit '' near you'']],
      ''compare'' \<mapsto>
        [[Lit ''Compare '', Base, Lit '' in '', City],
         [Lit ''Top '', Base, Lit '' options near you''],
         [Lit ''Best '', Base, Lit '' nearby'']],
      ''generic'' \<mapsto> TEMPLATES]"

definition format_tpl :: "piece list \<Rightarrow> string \<Rightarrow> string \<Rightarrow> string" where
  "format_tpl tpl base city =
     concat (map (\<lambda>p. case p of Lit l \<Rightarrow> l | Base \<Rightarrow> base | City \<Rightarrow> city) tpl)"

definition rewrite_with_intent :: "string \<Rightarrow> string option \<Rightarrow> string \<Rightarrow> string list" where
  "rewrite_with_intent base city intent =
     (let templates = (case INTENT_TEMPLATES intent of Some ts \<Rightarrow> ts | None \<Rightarrow> TEMPLATES);
          city_or = (case city of Some c \<Rightarrow> if c \<noteq> [] then c else ''[City]'' | None \<Rightarrow> ''[City]'')
      in map (\<lambda>tpl. format_tpl tpl base city_or) templates)"

section \<open>Opening hours\<close>

text \<open>Strings compare by code point, a proper prefix first.\<close>

fun str_le :: "string \<Rightarrow> string \<Rightarrow> bool" where
  "str_le [] t = True"
| "str_le (c # cs) [] = False"
| "str_le (c # cs) (d # ds) =
     ((of_char c :: nat) < of_char d \<or> (c = d \<and> str_le cs ds))"

fun py_le :: "json \<Rightarrow> json \<Rightarrow> py_error + bool" where
  "py_le (JStr a) (JStr b) = Inr (str_le a b)"
| "py_le _ _ = Inl TypeError"

text \<open>\<open>start, end = item\<close>: the item is iterated and must give exactly two values.\<close>

definition unpack2 :: "json \<Rightarrow> py_error + json \<times> json" where
  "unpack2 item =
     rbind (py_iter item) (\<lambda>xs. case xs of [a, b] \<Rightarrow> Inr (a, b) | _ \<Rightarrow> Inl ValueError)"

fun in_intervals :: "string \<Rightarrow> json list \<Rightarrow> py_error + bool" where
  "in_intervals current [] = Inr False"
| "in_intervals current (item # items) =
     (case unpack2 item of
        Inl err \<Rightarrow> Inl err
      | Inr se \<Rightarrow>
          (case py_le (fst se) (JStr current) of
             Inl err \<Rightarrow> Inl err
           | Inr False \<Rightarrow> in_intervals current items
           | Inr True \<Rightarrow>
               (case py_le (JStr current) (snd se) of
                  Inl err \<Rightarrow> Inl err
                | Inr True \<Rightarrow> Inr True
                | Inr False \<Rightarrow> in_intervals current items)))"

definition is_open_now :: "env \<Rightarrow> json \<Rightarrow> py_error + bool" where
  "is_open_now e hrs =
     (case hrs of
        JObj kvs \<Rightarrow>
          if kvs = [] then Inr False
          else rbind (dict_get hrs (weekday e) (JArr [])) (\<lambda>v. rbind (py_iter v) (\<lambda>intervals.
                 in_intervals (clock e) intervals))
      | _ \<Rightarrow> Inr False)"

section \<open>The boosts applied to one candidate\<close>

text \<open>The values the boost loop of \<open>rank_candidates\<close> reads besides the candidate: the
  history terms \<open>history + USER_HISTORY_CACHE[user_id]\<close> (an error when the sum cannot
  be formed), the detected city, the caller's coordinates, the configured radius, the
  black- and whitelist and the learned preferences.\<close>

record rank_ctx =
  rc_terms :: "py_error + json list"
  rc_city :: "string option"
  rc_user_lat :: json
  rc_user_lon :: json
  rc_radius_km :: "real option"
  rc_blacklist :: "string list"
  rc_whitelist :: "string list"
  rc_user_prefs :: "string \<rightharpoonup> real"
  rc_user_negs :: "string \<rightharpoonup> real"

definition history_terms :: "world \<Rightarrow> json \<Rightarrow> json \<Rightarrow> py_error + json list" where
  "history_terms w user_id history =
     (if \<not> hashable user_id then Inl TypeError
      else (case history of
              JArr hs \<Rightarrow> Inr (hs @ map JStr (USER_HISTORY_CACHE w user_id))
            | _ \<Rightarrow> Inl TypeError))"

definition blacklisted :: "string list \<Rightarrow> string \<Rightarrow> bool" where
  "blacklisted blacklist t =
     (blacklist \<noteq> [] \<and> list_ex (\<lambda>b. substr_in b (lower t)) blacklist)"

text \<open>The whitelist test guards a \<open>pass\<close>: the boost leaves it as it entered.\<close>

definition whitelist_pass :: "string list \<Rightarrow> string \<Rightarrow> real \<Rightarrow> real" where
  "whitelist_pass whitelist t boost =
     (if whitelist \<noteq> [] \<and> \<not> list_ex (\<lambda>w. substr_in w (lower t)) whitelist
      then boost else boost)"

fun history_boost :: "json list \<Rightarrow> string \<Rightarrow> real \<Rightarrow> py_error + real" where
  "history_boost [] t boost = Inr boost"
| "history_boost (h # hs) t boost =
     (case py_lower h of
        Inl err \<Rightarrow> Inl err
      | Inr l \<Rightarrow>
          history_boost hs t (if substr_in l (lower t) then boost + BOOST_HISTORY else boost))"

definition rating_boost :: "string cand \<Rightarrow> real \<Rightarrow> py_error + real" where
  "rating_boost cand boost =
     rbind (py_ge (rating cand) 4.5) (\<lambda>high.
       Inr (if high then boost + BOOST_HIGH_RATING else boost))"

definition city_boost :: "string option \<Rightarrow> string cand \<Rightarrow> real \<Rightarrow> py_error + real" where
  "city_boost city cand boost =
     (case city of
        None \<Rightarrow> Inr boost
      | Some c \<Rightarrow>
          if c \<noteq> [] \<and> truthy (location cand)
          then rbind (py_lower (location cand)) (\<lambda>l.
                 Inr (if substr_in (lower c) l then boost + BOOST_LOCATION_MATCH else boost))
          else Inr boost)"

text \<open>The coordinate stage either drops the candidate (\<open>continue\<close>) or hands on the
  boost and the distance.  Everything raised inside its \<open>try\<close> is swallowed; the
  conversions and the distance are the only statements there that can raise, and they
  come before the boost is touched.\<close>

datatype geo = Dropped | Kept real "real option"

definition try_distance :: "json \<Rightarrow> json \<Rightarrow> json \<Rightarrow> json \<Rightarrow> py_error + real" where
  "try_distance user_lat user_lon lat lon =
     rbind (py_float user_lat) (\<lambda>a. rbind (py_float user_lon) (\<lambda>b.
     rbind (py_float lat) (\<lambda>c. rbind (py_float lon) (\<lambda>d. calculate_distance a b c d))))"

definition geo_boost :: "rank_ctx \<Rightarrow> string cand \<Rightarrow> real \<Rightarrow> py_error + geo" where
  "geo_boost rc cand boost =
     (if truthy (rc_user_lat rc) \<and> truthy (rc_user_lon rc)
         \<and> latitude cand \<noteq> JNull \<and> longitude cand \<noteq> JNull
      then (case try_distance (rc_user_lat rc) (rc_user_lon rc) (latitude cand) (longitude cand) of
              Inl err \<Rightarrow> Inr (Kept boost None)
            | Inr distance_km \<Rightarrow>
                let boost' = (if distance_km \<le> 5 then boost + 0.15
                              else if distance_km \<le> 20 then boost + 0.08
                              else boost + 0.0)
                in (case rc_radius_km rc of
                      Some radius_km \<Rightarrow>
                        if distance_km > radius_km then Inr Dropped
                        else Inr (Kept boost' (Some distance_km))
                    | None \<Rightarrow> Inr (Kept boost' (Some distance_km))))
      else if truthy (rc_user_lat rc) \<and> truthy (rc_user_lon rc) \<and> truthy (location cand)
      then rbind (get_location_boost (rc_user_lat rc) (rc_user_lon rc) (location cand)) (\<lambda>g.
             Inr (Kept (boost + g) None))
      else Inr (Kept boost None))"

definition learned_boost :: "rank_ctx \<Rightarrow> string \<Rightarrow> real \<Rightarrow> real" where
  "learned_boost rc t boost =
     (let boost1 = (case rc_user_prefs rc (lower t) of
                      Some p \<Rightarrow> boost + BOOST_LEARNED_PATTERN * (p / 10.0)
                    | None \<Rightarrow> boost)
      in (case rc_user_negs rc (lower t) of
            Some n \<Rightarrow> boost1 - BOOST_LEARNED_PATTERN * (n / 5.0)
          | None \<Rightarrow> boost1))"

definition pattern_boost :: "world \<Rightarrow> string \<Rightarrow> real \<Rightarrow> real" where
  "pattern_boost w t boost =
     (if successful_suggestions w (lower t) \<noteq> None
      then boost + BOOST_LEARNED_PATTERN * 0.5 else boost)"

definition business_boost :: "string cand \<Rightarrow> real \<Rightarrow> real" where
  "business_boost cand boost =
     (let boost1 = (if featured cand then boost + 0.1 else boost);
          boost2 = (if plan_level cand \<in> {JStr ''premium'', JStr ''gold'', JStr ''platinum''}
                    then boost1 + 0.08 else boost1)
      in boost2 + priority_score cand * 0.05)"

definition availability_boost :: "env \<Rightarrow> string cand \<Rightarrow> real \<Rightarrow> py_error + real" where
  "availability_boost e cand boost =
     rbind (is_open_now e (hours cand)) (\<lambda>open_now.
       let boost1 = (if open_now then boost + 0.05 else boost)
       in Inr (if truthy (promo_badge cand) then boost1 + 0.03 else boost1))"

text \<open>The body of the loop for one \<open>(cand, sc)\<close>: \<open>None\<close> when the candidate is skipped,
  otherwise the triple appended to \<open>scores\<close>.\<close>

type_synonym scored = "string cand \<times> real \<times> real option"

text \<open>The part of the loop body after the history boost.\<close>

definition later_boosts ::
  "env \<Rightarrow> world \<Rightarrow> rank_ctx \<Rightarrow> string cand \<Rightarrow> real \<Rightarrow> real \<Rightarrow> py_error + scored option"
where
  "later_boosts e w rc cand sc b1 =
     rbind (rating_boost cand b1) (\<lambda>b2.
     rbind (city_boost (rc_city rc) cand b2) (\<lambda>b3.
     rbind (geo_boost rc cand b3) (\<lambda>g.
       case g of
         Dropped \<Rightarrow> Inr None
       | Kept b4 distance_km \<Rightarrow>
           rbind (availability_boost e cand
                    (business_boost cand
                       (pattern_boost w (ctext cand) (learned_boost rc (ctext cand) b4)))) (\<lambda>b5.
             Inr (Some (cand, sc + b5, distance_km))))))"

definition score_candidate ::
  "env \<Rightarrow> world \<Rightarrow> rank_ctx \<Rightarrow> string cand \<Rightarrow> real \<Rightarrow> py_error + scored option"
where
  "score_candidate e w rc cand sc =
     (let t = ctext cand in
      if blacklisted (rc_blacklist rc) t then Inr None
      else
        rbind (rc_terms rc) (\<lambda>terms.
        rbind (history_boost terms t (whitelist_pass (rc_whitelist rc) t 0.0)) (\<lambda>b1.
          later_boosts e w rc cand sc b1)))"

fun apply_boosts ::
  "env \<Rightarrow> world \<Rightarrow> rank_ctx \<Rightarrow> (string cand \<times> real) list \<Rightarrow> py_error + scored list"
where
  "apply_boosts e w rc [] = Inr []"
| "apply_boosts e w rc (cs # ranked) =
     (case score_candidate e w rc (fst cs) (snd cs) of
        Inl err \<Rightarrow> Inl err
      | Inr None \<Rightarrow> apply_boosts e w rc ranked
      | Inr (Some x) \<Rightarrow> rbind (apply_boosts e w rc ranked) (\<lambda>scores. Inr (x # scores)))"

section \<open>The ranking pipeline\<close>

text \<open>\<open>round(x, n)\<close>: the nearest multiple of \<open>10\<^sup>-\<^sup>n\<close>, a tie going to the even
  one.\<close>

definition py_round :: "real \<Rightarrow> nat \<Rightarrow> real" where
  "py_round x n =
     (let y = x * 10 ^ n; f = \<lfloor>y\<rfloor>; d = y - real_of_int f;
          k = (if d < 1 / 2 then f else if 1 / 2 < d then f + 1
               else if even f then f else f + 1)
      in real_of_int k / 10 ^ n)"

text \<open>The cache key serialises these six values with sorted keys; it is modelled by the
  values themselves.\<close>

definition cache_key_of :: "string \<Rightarrow> json \<Rightarrow> json \<Rightarrow> json \<Rightarrow> json \<Rightarrow> py_error + cache_key" where
  "cache_key_of query site_data user_id user_lat user_lon =
     rbind (dict_get site_data ''settings'' (JObj [])) (\<lambda>settings.
     rbind (dict_get settings ''radius_km'' JNull) (\<lambda>radius.
       Inr (query, user_id, user_lat, user_lon, detect_intent query, radius)))"

definition configured_radius :: "json \<Rightarrow> real option" where
  "configured_radius site_data =
     (case rbind (dict_get site_data ''settings'' (JObj [])) (\<lambda>settings.
           rbind (dict_get settings ''radius_km'' JNull) py_float) of
        Inl err \<Rightarrow> None
      | Inr r \<Rightarrow> Some r)"

text \<open>Cold start: the truthy names of the manual categories and professions, at most five,
  or the fixed fallback.\<close>

definition cold_name :: "json \<Rightarrow> py_error + json list" where
  "cold_name item = rbind (dict_get item ''name'' JNull) (\<lambda>name. Inr (if truthy name then [name] else []))"

definition cold_start :: "manual_rows \<Rightarrow> py_error + json list" where
  "cold_start rows =
     rbind (rmap cold_name (get_manual_data rows ''category'' @ get_manual_data rows ''profession''))
       (\<lambda>names. let cold = take 5 (concat names)
                 in Inr (if cold \<noteq> [] then cold else [JStr ''Popular services near you'']))"

definition wants_card :: "string cand \<Rightarrow> bool" where
  "wants_card cand =
     (kind cand \<in> {Member, Tag, Review} \<and> (truthy (profile_url cand) \<or> truthy (member_id cand)))"

definition make_card :: "scored \<Rightarrow> card" where
  "make_card x =
     (case x of (cand, score, distance) \<Rightarrow>
        \<lparr>card_title = ctext cand, card_member_id = member_id cand,
         card_profile_url = profile_url cand, card_thumbnail_url = thumbnail_url cand,
         card_rating = rating cand, card_location = location cand,
         card_distance_km = map_option (\<lambda>d. py_round d 2) distance,
         card_promo_badge = promo_badge cand, card_featured = featured cand\<rparr>)"

definition top_suggestions :: "scored list \<Rightarrow> string option \<Rightarrow> string \<Rightarrow> string list" where
  "top_suggestions scores city intent =
     concat (map (\<lambda>x. rewrite_with_intent (ctext (fst x)) city intent) (take 5 scores))"

definition top_cards :: "scored list \<Rightarrow> card list" where
  "top_cards scores = map make_card (filter (\<lambda>x. wants_card (fst x)) (take 5 scores))"

text \<open>The final loop: keep a suggestion whose lower-cased form is new, stop at five.\<close>

fun dedup_limit :: "string list \<Rightarrow> string set \<Rightarrow> string list \<Rightarrow> string list" where
  "dedup_limit [] seen final = final"
| "dedup_limit (s # ss) seen final =
     (let final' = (if lower s \<notin> seen then final @ [s] else final);
          seen' = (if lower s \<notin> seen then insert (lower s) seen else seen)
      in if length final' \<ge> 5 then final' else dedup_limit ss seen' final')"

definition make_debug :: "string \<Rightarrow> string option \<Rightarrow> scored list \<Rightarrow> debug_info" where
  "make_debug intent city scores =
     \<lparr>debug_intent = intent, debug_city = city,
      top_candidates =
        map (\<lambda>c. \<lparr>top_text = ctext (fst c), top_type = kind (fst c),
                   top_score = py_round (fst (snd c)) 4, top_distance_km = snd (snd c)\<rparr>)
          (take 10 scores)\<rparr>"

type_synonym rank_result = "json list \<times> card list \<times> debug_ret"

text \<open>\<open>city = locs[0] if locs else None\<close>.\<close>

definition detect_city :: "env \<Rightarrow> string \<Rightarrow> string option" where
  "detect_city e query =
     (let locs = detect_locations e query in if locs \<noteq> [] then Some (hd locs) else None)"

text \<open>The section \<open>Apply boosts\<close>: the preferences (two queries with the user id as
  their parameter), the radius, the black- and whitelist are fetched, then the loop runs
  over the ranked pairs.\<close>

definition boost_ranked ::
  "env \<Rightarrow> world \<Rightarrow> json \<Rightarrow> json \<Rightarrow> json \<Rightarrow> json \<Rightarrow> json \<Rightarrow> string option \<Rightarrow>
   (string cand \<times> real) list \<Rightarrow> py_error + scored list"
where
  "boost_ranked e w site_data user_id history user_lat user_lon city ranked =
     (if sql_bindable user_id then
        rbind (get_user_preferences e user_id) (\<lambda>user_prefs.
        rbind (get_user_negative_preferences e user_id) (\<lambda>user_negs.
        rbind (get_blacklist (manual_data e)) (\<lambda>blacklist.
        rbind (get_whitelist (manual_data e)) (\<lambda>whitelist.
          apply_boosts e w
            \<lparr>rc_terms = history_terms w user_id history, rc_city = city,
             rc_user_lat = user_lat, rc_user_lon = user_lon,
             rc_radius_km = configured_radius site_data,
             rc_blacklist = blacklist, rc_whitelist = whitelist,
             rc_user_prefs = user_prefs, rc_user_negs = user_negs\<rparr>
            ranked))))
      else Inl DatabaseError)"

text \<open>The rest of the function: sort by descending score, rewrite the top five, dedup and
  limit, remember the query, build the trace, count the query and store the result.\<close>

definition finish_request ::
  "env \<Rightarrow> world \<Rightarrow> cache_key \<Rightarrow> string \<Rightarrow> json \<Rightarrow> bool \<Rightarrow> string option \<Rightarrow> scored list \<Rightarrow>
   rank_result \<times> world"
where
  "finish_request e w cache_key query user_id dbg city unsorted =
     (let intent = detect_intent query;
          scores = sort_key (\<lambda>x. - fst (snd x)) unsorted;
          final = map JStr (dedup_limit (top_suggestions scores city intent) {} []);
          cds = top_cards scores;
          debug_info = (if dbg then Some (make_debug intent city scores) else None)
      in ((final, cds, (case debug_info of None \<Rightarrow> NoDebug | Some d \<Rightarrow> DebugTrace d)),
          w\<lparr>USER_HISTORY_CACHE :=
               (USER_HISTORY_CACHE w)
                 (user_id :=
                    (if query \<in> set (USER_HISTORY_CACHE w user_id)
                     then USER_HISTORY_CACHE w user_id
                     else USER_HISTORY_CACHE w user_id @ [query])),
            POPULAR_QUERIES :=
               (POPULAR_QUERIES w)(lower query := POPULAR_QUERIES w (lower query) + 1),
            SUGGESTION_CACHE :=
               (SUGGESTION_CACHE w)
                 (cache_key \<mapsto>
                    \<lparr>cached_ts = now_ts e, cached_suggestions = final,
                     cached_cards = cds, cached_debug = debug_info\<rparr>)\<rparr>))"

text \<open>The pipeline after a cache miss with a non-empty candidate list.\<close>

definition rank_pipeline ::
  "env \<Rightarrow> world \<Rightarrow> cache_key \<Rightarrow> string \<Rightarrow> json \<Rightarrow> json \<Rightarrow> json \<Rightarrow> json \<Rightarrow> json \<Rightarrow> bool \<Rightarrow>
   string cand list \<Rightarrow> (py_error + rank_result) \<times> world"
where
  "rank_pipeline e w cache_key query site_data user_id history user_lat user_lon dbg candidates =
     (case hybrid_rank e w query candidates of
        (Inl err, w1) \<Rightarrow> (Inl err, w1)
      | (Inr ranked, w1) \<Rightarrow>
          (case boost_ranked e w1 site_data user_id history user_lat user_lon
                  (detect_city e query) ranked of
             Inl err \<Rightarrow> (Inl err, w1)
           | Inr unsorted \<Rightarrow>
               (case finish_request e w1 cache_key query user_id dbg (detect_city e query)
                       unsorted of
                  (res, w2) \<Rightarrow> (Inr res, w2))))"

text \<open>The cache lookup: the stored entry when there is one no older than the TTL.\<close>

definition cache_lookup :: "env \<Rightarrow> world \<Rightarrow> cache_key \<Rightarrow> cache_entry option" where
  "cache_lookup e w cache_key =
     (case SUGGESTION_CACHE w cache_key of
        Some cached \<Rightarrow>
          if now_ts e - cached_ts cached \<le> SUGGESTION_CACHE_TTL_SECONDS
          then Some cached else None
      | None \<Rightarrow> None)"

definition rank_candidates ::
  "env \<Rightarrow> world \<Rightarrow> string \<Rightarrow> json \<Rightarrow> json \<Rightarrow> json \<Rightarrow> json \<Rightarrow> json \<Rightarrow> bool \<Rightarrow>
   (py_error + rank_result) \<times> world"
where
  "rank_candidates e w query site_data user_id history user_lat user_lon dbg =
     (case cache_key_of query site_data user_id user_lat user_lon of
        Inl err \<Rightarrow> (Inl err, w)
      | Inr cache_key \<Rightarrow>
          (case cache_lookup e w cache_key of
             Some cached \<Rightarrow>
               (Inr (cached_suggestions cached, cached_cards cached,
                     (if dbg
                      then (case cached_debug cached of None \<Rightarrow> NoDebug | Some d \<Rightarrow> DebugTrace d)
                      else DebugTuple (cached_suggestions cached) (cached_cards cached))),
                w)
           | None \<Rightarrow>
               (case build_candidates (manual_data e) site_data of
                  Inl err \<Rightarrow> (Inl err, w)
                | Inr candidates \<Rightarrow>
                    if candidates = [] then
                      (case cold_start (manual_data e) of
                         Inl err \<Rightarrow> (Inl err, w)
                       | Inr cold \<Rightarrow>
                           (Inr (cold, [],
                                 (if dbg then DebugReason ''cold_start'' else DebugTuple cold [])),
                            w))
                    else rank_pipeline e w cache_key query site_data user_id history
                           user_lat user_lon dbg candidates)))"

section \<open>The \<open>/suggest\<close> endpoint\<close>

text \<open>\<open>save_search_interaction\<close>: the row is inserted and committed, then the in-memory
  learning counters are updated (no suggestion is selected when \<open>suggest\<close> calls it).  The
  row's timestamp is the clock reading of the request.\<close>

definition save_search_interaction ::
  "env \<Rightarrow> world \<Rightarrow> json \<Rightarrow> string \<Rightarrow> json list \<Rightarrow> json \<Rightarrow> (py_error + unit) \<times> world"
where
  "save_search_interaction e w user_id query suggs loc =
     (if \<not> db_insert_ok e \<or> \<not> sql_bindable user_id \<or> \<not> sql_bindable loc
      then (Inl DatabaseError, w)
      else
        let w1 = w\<lparr>search_history :=
                      search_history w @
                        [\<lparr>row_user_id = user_id, row_query = query, row_suggestions = suggs,
                          row_location = loc, row_timestamp = now_ts e,
                          row_ab_variant = JNull\<rparr>],
                    query_patterns :=
                      (query_patterns w)(lower query := query_patterns w (lower query) + 1)\<rparr>
        in if truthy loc
           then (case py_lower loc of
                   Inl err \<Rightarrow> (Inl err, w1)
                 | Inr l \<Rightarrow>
                     (Inr (),
                      w1\<lparr>location_patterns :=
                           (location_patterns w1)(l := location_patterns w1 l + 1)\<rparr>))
           else (Inr (), w1))"

text \<open>The A/B variant is written to the newest row of the user and query; this write sits
  in its own \<open>try\<close> whose handler is \<open>pass\<close>.\<close>

definition record_ab_variant :: "env \<Rightarrow> world \<Rightarrow> json \<Rightarrow> json \<Rightarrow> string \<Rightarrow> world" where
  "record_ab_variant e w ab_variant user_id query =
     (if truthy ab_variant \<and> db_update_ok e \<and> sql_bindable ab_variant \<and> sql_bindable user_id
      then
        let mine = filter (\<lambda>r. row_user_id r = user_id \<and> row_query r = query) (search_history w)
        in w\<lparr>search_history :=
               map (\<lambda>r. if row_user_id r = user_id \<and> row_query r = query
                            \<and> list_all (\<lambda>r'. row_timestamp r' \<le> row_timestamp r) mine
                         then r\<lparr>row_ab_variant := ab_variant\<rparr> else r)
                 (search_history w)\<rparr>
      else w)"

text \<open>The decision of \<open>require_api_key\<close>: \<open>False\<close>, \<open>"rate_limited"\<close> or \<open>True\<close>.\<close>

datatype auth = Denied | RateLimited | Granted

record response_body =
  original_query :: string
  resp_suggestions :: "json list"
  resp_cards :: "card list"
  resp_user_id :: json
  resp_debug :: "debug_ret option"

text \<open>The responses: 200 with a body, 400, 401, 429, the 500 of the handler's
  \<open>except\<close> clause, and an exception raised before the \<open>try\<close> that the handler does not
  catch.  The body's timestamp is left out.\<close>

datatype response =
    Ok response_body
  | BadRequest string
  | Unauthorized
  | TooManyRequests
  | ServerError py_error
  | Unhandled py_error

record suggest_args =
  arg_query :: string
  arg_user_id :: json
  arg_history :: json
  arg_site_data :: json
  arg_location :: json
  arg_user_lat :: json
  arg_user_lon :: json
  arg_debug :: bool
  arg_ab_variant :: json

definition read_args :: "string option \<Rightarrow> json \<Rightarrow> py_error + suggest_args" where
  "read_args header_variant data =
     rbind (dict_get data ''current_query'' (JStr [])) (\<lambda>v. rbind (py_strip v) (\<lambda>query.
     rbind (dict_get data ''user_id'' (JStr ''anon'')) (\<lambda>user_id.
     rbind (dict_get data ''user_search_history'' (JArr [])) (\<lambda>history.
     rbind (dict_get data ''site_data'' (JObj [])) (\<lambda>site_data.
     rbind (dict_get data ''user_location'' (JStr [])) (\<lambda>loc.
     rbind (dict_get data ''user_latitude'' JNull) (\<lambda>user_lat.
     rbind (dict_get data ''user_longitude'' JNull) (\<lambda>user_lon.
     rbind (dict_get data ''debug'' (JBool False)) (\<lambda>dbg.
     rbind (dict_get data ''ab_variant'' JNull) (\<lambda>variant.
       Inr \<lparr>arg_query = query, arg_user_id = user_id, arg_history = history,
            arg_site_data = site_data, arg_location = loc, arg_user_lat = user_lat,
            arg_user_lon = user_lon, arg_debug = truthy dbg,
            arg_ab_variant =
              (case header_variant of
                 Some h \<Rightarrow> if h \<noteq> [] then JStr h else variant
               | None \<Rightarrow> variant)\<rparr>))))))))))"

definition suggest ::
  "env \<Rightarrow> world \<Rightarrow> auth \<Rightarrow> string option \<Rightarrow> json \<Rightarrow> response \<times> world"
where
  "suggest e w au header_variant data =
     (case au of
        Denied \<Rightarrow> (Unauthorized, w)
      | RateLimited \<Rightarrow> (TooManyRequests, w)
      | Granted \<Rightarrow>
          (case read_args header_variant data of
             Inl err \<Rightarrow> (Unhandled err, w)
           | Inr a \<Rightarrow>
               if arg_query a = [] then (BadRequest ''current_query is required'', w)
               else
                 (case rank_candidates e w (arg_query a) (arg_site_data a) (arg_user_id a)
                         (arg_history a) (arg_user_lat a) (arg_user_lon a) (arg_debug a) of
                    (Inl err, w1) \<Rightarrow> (ServerError err, w1)
                  | (Inr (suggs, cds, debug_info), w1) \<Rightarrow>
                      (case save_search_interaction e w1 (arg_user_id a) (arg_query a) suggs
                              (arg_location a) of
                         (Inl err, w2) \<Rightarrow> (ServerError err, w2)
                       | (Inr u, w2) \<Rightarrow>
                           (Ok \<lparr>original_query = arg_query a, resp_suggestions = suggs,
                                resp_cards = cds, resp_user_id = arg_user_id a,
                                resp_debug =
                                  (if arg_debug a \<and> debug_info \<noteq> NoDebug
                                   then Some debug_info else None)\<rparr>,
                            record_ab_variant e w2 (arg_ab_variant a) (arg_user_id a)
                              (arg_query a))))))"

section \<open>A sample deployment\<close>

text \<open>Collaborators that score every candidate alike, find no location in a query and
  hold no manual data, and a freshly started process.\<close>

definition sample_env :: env where
  "sample_env =
     \<lparr>manual_data = [],
      get_user_preferences = (\<lambda>u. Inr Map.empty),
      get_user_negative_preferences = (\<lambda>u. Inr Map.empty),
      semantic_scores = (\<lambda>q texts. Inr (map (\<lambda>t. 1 / 2) texts)),
      bm25_scores = (\<lambda>q texts. Inr (map (\<lambda>t. 0) texts)),
      detect_locations = (\<lambda>q. []),
      now_ts = 1000, weekday = ''mon'', clock = ''10:30'',
      db_insert_ok = True, db_update_ok = True\<rparr>"

definition fresh_world :: world where
  "fresh_world =
     \<lparr>USER_HISTORY_CACHE = (\<lambda>u. []), SUGGESTION_CACHE = Map.empty,
      POPULAR_QUERIES = (\<lambda>q. 0), query_patterns = (\<lambda>q. 0),
      successful_suggestions = Map.empty, location_patterns = (\<lambda>l. 0),
      search_history = [], encode_calls = 0, bm25_calls = 0\<rparr>"

section \<open>Notions used in the statements\<close>

text \<open>Every later stage adds to the boost it is given, so a head start of \<open>d\<close> shows up
  as \<open>d\<close> in the final score.\<close>

definition shift :: "real \<Rightarrow> py_error + scored option \<Rightarrow> py_error + scored option" where
  "shift d r = map_sum id (map_option (\<lambda>x. (fst x, fst (snd x) + d, snd (snd x)))) r"

text \<open>A deduplicated candidate, as the emitted dict it was.\<close>

definition raw :: "string cand \<Rightarrow> json cand" where
  "raw c = with_text c (JStr (ctext c)) (kind c)"

text \<open>An emitted candidate has the dedup key \<open>k\<close>.\<close>

definition same_key :: "string \<Rightarrow> json cand \<Rightarrow> bool" where
  "same_key k d = (case ctext d of JStr s \<Rightarrow> lower s = k | _ \<Rightarrow> False)"

text \<open>What the claim asks of a suggestion list: at most five entries, all strings, no two
  equal after lower-casing.\<close>

definition well_formed :: "json list \<Rightarrow> bool" where
  "well_formed suggs \<longleftrightarrow>
     length suggs \<le> 5 \<and> (\<exists>ss. suggs = map JStr ss \<and> distinct (map lower ss))"

text \<open>Every stored result is well formed; the pipeline keeps it so.\<close>

definition cache_ok :: "world \<Rightarrow> bool" where
  "cache_ok w \<longleftrightarrow> (\<forall>k entry. SUGGESTION_CACHE w k = Some entry \<longrightarrow> well_formed (cached_suggestions entry))"

text \<open>The states of the process: it starts with an empty \<open>SUGGESTION_CACHE\<close>, a rank
  request moves it on, and nothing else in the service writes to that cache.\<close>

inductive reachable :: "world \<Rightarrow> bool" where
  start: "SUGGESTION_CACHE w = Map.empty \<Longrightarrow> reachable w"
| rank: "reachable w \<Longrightarrow> reachable (snd (rank_candidates e w q sd u h la lo dbg))"
| other: "reachable w \<Longrightarrow> SUGGESTION_CACHE w' = SUGGESTION_CACHE w \<Longrightarrow> reachable w'"


section \<open>Sample data\<close>

definition sample_catalog :: json where
  "sample_catalog =
     JObj [(''settings'', JObj [(''radius_km'', JInt 50)]),
           (''members'',
            JArr [JObj [(''id'', JInt 1), (''name'', JStr ''Acme Plumbing''),
                        (''tags'', JStr ''plumber, drain cleaning''),
                        (''rating'', JFloat 4.7), (''location'', JStr ''New York, NY''),
                        (''profile_url'', JStr ''https://example.com/m/1'')]])]"

definition sample_request :: "env \<Rightarrow> world \<Rightarrow> (py_error + rank_result) \<times> world" where
  "sample_request e w =
     rank_candidates e w ''plumber near me'' sample_catalog (JStr ''u1'') (JArr []) JNull JNull
       False"

text \<open>A catalog in which the text \<open>plumber\<close> is emitted four times: as a category, a
  member name, a tag and a manual category.\<close>

definition dup_rows :: manual_rows where
  "dup_rows = [(''category'', JObj [(''name'', JStr ''plumber'')])]"

definition dup_catalog :: json where
  "dup_catalog =
     JObj [(''categories'', JArr [JObj [(''top_category'', JStr ''Plumber'')]]),
           (''members'', JArr [JObj [(''name'', JStr ''PLUMBER''), (''tags'', JStr ''plumber, Drain'')]])]"

text \<open>A catalog without members, the same settings, and a clock ten seconds on.\<close>

definition empty_catalog :: json where
  "empty_catalog = JObj [(''settings'', JObj [(''radius_km'', JInt 50)]), (''members'', JArr [])]"

definition later_env :: env where
  "later_env = sample_env\<lparr>now_ts := 1010\<rparr>"


text \<open>A catalog whose first member has a \<open>null\<close> name, and the same catalog without
  that member.\<close>

definition null_name_catalog :: json where
  "null_name_catalog =
     JObj [(''members'', JArr [JObj [(''name'', JNull)], JObj [(''name'', JStr ''Bob'')]])]"

definition bob_catalog :: json where
  "bob_catalog = JObj [(''members'', JArr [JObj [(''name'', JStr ''Bob'')]])]"

text \<open>The sample deployment with a store that rejects inserts, and the body of the sample
  request as \<open>/suggest\<close> receives it.\<close>

definition readonly_env :: env where
  "readonly_env = sample_env\<lparr>db_insert_ok := False\<rparr>"

definition sample_body :: json where
  "sample_body =
     JObj [(''current_query'', JStr ''plumber near me''), (''user_id'', JStr ''u1''),
           (''site_data'', sample_catalog)]"

text \<open>A catalog with one member near Oslo and a radius of 50 km, for a caller on the
  equator at longitude 10.\<close>

definition oslo_catalog :: json where
  "oslo_catalog =
     JObj [(''settings'', JObj [(''radius_km'', JInt 50)]),
           (''members'',
            JArr [JObj [(''id'', JInt 7), (''name'', JStr ''Oslo Plumbing''),
                        (''latitude'', JInt 60), (''longitude'', JInt 10)]])]"

section \<open>Properties of the Python operations\<close>

lemma substr_in_sublist: "substr_in p s \<longleftrightarrow> sublist p s"
  by (induction s) (auto simp: sublist_Cons_right)

lemma rbind_Inr [simp]: "rbind (Inr x) f = f x"
  by (simp add: rbind_def)

lemma rbind_Inl [simp]: "rbind (Inl err) f = Inl err"
  by (simp add: rbind_def)

lemma rbind_eq_Inr: "rbind m f = Inr y \<longleftrightarrow> (\<exists>x. m = Inr x \<and> f x = Inr y)"
  by (cases m) simp_all

lemmas lower_simps = lower_def lower_char_def is_upper_def

lemmas build_simps =
  build_candidates_def emit_candidates_def member_candidates_def member_tags_def
  category_candidates_def manual_candidates_def strip_def is_space_def with_text_def
  plain_cand_def lower_simps

lemmas rank_simps =
  rank_candidates_def cache_key_of_def cache_lookup_def rank_pipeline_def hybrid_rank_def
  get_synonyms_map_def get_manual_data_def expand_query_def WEIGHT_SEMANTIC_def WEIGHT_BM25_def
  boost_ranked_def finish_request_def detect_city_def configured_radius_def
  get_blacklist_def get_whitelist_def row_term_def score_candidate_def later_boosts_def
  blacklisted_def whitelist_pass_def history_terms_def rating_boost_def city_boost_def
  geo_boost_def get_location_boost_def location_keywords_def learned_boost_def
  pattern_boost_def business_boost_def availability_boost_def is_open_now_def
  BOOST_HISTORY_def BOOST_HIGH_RATING_def BOOST_LOCATION_MATCH_def BOOST_LEARNED_PATTERN_def
  SUGGESTION_CACHE_TTL_SECONDS_def detect_intent_def top_suggestions_def top_cards_def
  wants_card_def make_card_def make_debug_def py_round_def rewrite_with_intent_def
  INTENT_TEMPLATES_def TEMPLATES_def format_tpl_def cold_start_def cold_name_def Let_def


section \<open>The history boost\<close>

text \<open>The loop adds \<open>BOOST_HISTORY\<close> once for every history entry that occurs in the
  candidate text, so string entries contribute their number of matches.\<close>

lemma history_boost_count:
  "history_boost (map JStr hs) t b =
     Inr (b + BOOST_HISTORY * real (length (filter (\<lambda>h. substr_in (lower h) (lower t)) hs)))"
  by (induction hs arbitrary: b) (simp_all add: algebra_simps)

lemma history_terms_strings:
  "hashable user_id \<Longrightarrow>
   history_terms w user_id (JArr (map JStr hs)) = Inr (map JStr (hs @ USER_HISTORY_CACHE w user_id))"
  by (simp add: history_terms_def)

lemma rating_boost_shift: "rating_boost c (b + d) = map_sum id (\<lambda>x. x + d) (rating_boost c b)"
  by (cases "py_ge (rating c) 4.5") (simp_all add: rating_boost_def)

lemma city_boost_shift: "city_boost ci c (b + d) = map_sum id (\<lambda>x. x + d) (city_boost ci c b)"
  by (cases "py_lower (location c)") (simp_all add: city_boost_def split: option.splits)

lemma geo_boost_shift:
  "geo_boost rc c (b + d) =
     map_sum id (\<lambda>g. case g of Dropped \<Rightarrow> Dropped | Kept x dk \<Rightarrow> Kept (x + d) dk)
       (geo_boost rc c b)"
  by (cases "get_location_boost (rc_user_lat rc) (rc_user_lon rc) (location c)")
     (simp_all add: geo_boost_def Let_def split: sum.splits option.splits)

lemma learned_boost_shift: "learned_boost rc t (b + d) = learned_boost rc t b + d"
  by (simp add: learned_boost_def Let_def split: option.splits)

lemma pattern_boost_shift: "pattern_boost w t (b + d) = pattern_boost w t b + d"
  by (simp add: pattern_boost_def)

lemma business_boost_shift: "business_boost c (b + d) = business_boost c b + d"
  by (simp add: business_boost_def Let_def)

lemma availability_boost_shift:
  "availability_boost e c (b + d) = map_sum id (\<lambda>x. x + d) (availability_boost e c b)"
  by (cases "is_open_now e (hours c)") (simp_all add: availability_boost_def Let_def)

lemma later_boosts_shift:
  "later_boosts e w rc c sc (b + d) = shift d (later_boosts e w rc c sc b)"
  unfolding later_boosts_def rating_boost_shift
  apply (cases "rating_boost c b"; simp add: shift_def)
  unfolding city_boost_shift
  subgoal for b2
    apply (cases "city_boost (rc_city rc) c b2"; simp)
    unfolding geo_boost_shift
    subgoal for b3
      apply (cases "geo_boost rc c b3"; simp)
      subgoal for g
        apply (cases g; simp add: learned_boost_shift pattern_boost_shift business_boost_shift
                 availability_boost_shift)
        subgoal for b4 dk
          by (cases "availability_boost e c
                       (business_boost c (pattern_boost w (ctext c) (learned_boost rc (ctext c) b4)))";
              simp)
        done
      done
    done
  done

lemma geo_boost_terms: "geo_boost (rc\<lparr>rc_terms := x\<rparr>) = geo_boost rc"
  by (simp add: geo_boost_def fun_eq_iff cong: if_cong sum.case_cong option.case_cong)

lemma learned_boost_terms: "learned_boost (rc\<lparr>rc_terms := x\<rparr>) = learned_boost rc"
  by (simp add: learned_boost_def fun_eq_iff)

lemma later_boosts_terms:
  "later_boosts e w (rc\<lparr>rc_terms := x\<rparr>) cand sc b = later_boosts e w rc cand sc b"
  by (simp add: later_boosts_def geo_boost_terms learned_boost_terms cong: geo.case_cong)

text \<open>
  Claim C2, as amended.  With history entries \<open>hs\<close> (the caller's list followed by the
  server-side list), the loop body gives a candidate exactly the result it gives with an
  empty history, its score raised by \<open>BOOST_HISTORY\<close> times the number of entries of
  \<open>hs\<close> that occur, case-insensitively, in the candidate text.  Entries are counted with
  multiplicity; the contribution is \<open>0.10\<close> only when exactly one entry matches.
\<close>

theorem history_boost_per_matching_entry:
  "score_candidate e w (rc\<lparr>rc_terms := Inr (map JStr hs)\<rparr>) cand sc =
     shift (BOOST_HISTORY *
              real (length (filter (\<lambda>h. substr_in (lower h) (lower (ctext cand))) hs)))
       (score_candidate e w (rc\<lparr>rc_terms := Inr []\<rparr>) cand sc)"
proof (cases "blacklisted (rc_blacklist rc) (ctext cand)")
  case True
  then show ?thesis by (simp add: score_candidate_def shift_def)
next
  case False
  let ?n = "real (length (filter (\<lambda>h. substr_in (lower h) (lower (ctext cand))) hs))"
  let ?b = "whitelist_pass (rc_whitelist rc) (ctext cand) 0"
  have later: "later_boosts e w rc cand sc (?b + BOOST_HISTORY * ?n) =
      shift (BOOST_HISTORY * ?n) (later_boosts e w rc cand sc ?b)"
    by (rule later_boosts_shift)
  from False show ?thesis
    by (simp add: score_candidate_def history_boost_count later later_boosts_terms Let_def)
qed

text \<open>Claim C2 as stated fails: a user whose earlier query \<open>dental\<close> is both in the
  request's history and in the server-side history cache gets the boost twice on the
  candidate \<open>Downtown Dental\<close>, \<open>0.20\<close> in total.\<close>

theorem history_boost_counted_twice:
  "rbind (history_terms (fresh_world\<lparr>USER_HISTORY_CACHE := (\<lambda>u. [''dental''])\<rparr>)
            (JStr ''u1'') (JArr [JStr ''dental'']))
     (\<lambda>terms. history_boost terms ''Downtown Dental'' 0) = Inr (2 / 10)"
  by (simp add: history_terms_def BOOST_HISTORY_def lower_simps)

text \<open>
  Claim C9, as amended.  With the single history entry \<open>dentist\<close> the candidate
  \<open>Downtown Dental\<close> gets no history boost: the boost leaves the loop as it entered,
  because \<open>dentist\<close> does not occur in \<open>downtown dental\<close>.
\<close>

theorem dentist_gives_no_history_boost:
  "\<not> substr_in (lower ''dentist'') (lower ''Downtown Dental'') \<and>
   history_boost [JStr ''dentist''] ''Downtown Dental'' b = Inr b"
  by (simp add: lower_simps)

text \<open>Claim C9 as stated fails: the boost of \<open>0.10\<close> is not applied.\<close>

theorem dentist_boost_counterexample:
  "history_boost [JStr ''dentist''] ''Downtown Dental'' 0 \<noteq> Inr (0 + BOOST_HISTORY)"
  by (simp add: lower_simps BOOST_HISTORY_def)

section \<open>Deduplication in the Candidate Builder\<close>

lemma raw_with_text: "ctext c = JStr s \<Longrightarrow> raw (with_text c s (kind c)) = c"
  by (simp add: raw_def with_text_def)

lemma dedup_first:
  "dedup cs seen = Inr out \<Longrightarrow> c \<in> set out \<Longrightarrow>
   lower (ctext c) \<notin> seen \<and> find (same_key (lower (ctext c))) cs = Some (raw c)"
proof (induction cs arbitrary: seen out)
  case Nil
  then show ?case by simp
next
  case (Cons d ds)
  from Cons.prems(1) obtain s where s: "ctext d = JStr s"
    by (cases "ctext d") simp_all
  show ?case
  proof (cases "lower s \<in> seen")
    case True
    with Cons.prems s have "dedup ds seen = Inr out" by simp
    from Cons.IH[OF this Cons.prems(2)] True s show ?thesis
      by (auto simp: same_key_def)
  next
    case False
    with Cons.prems(1) s obtain uniq where
      u: "dedup ds (insert (lower s) seen) = Inr uniq" and out: "out = with_text d s (kind d) # uniq"
      by (auto simp: rbind_eq_Inr)
    show ?thesis
    proof (cases "c = with_text d s (kind d)")
      case True
      with False s show ?thesis
        by (simp add: same_key_def raw_with_text) (simp add: with_text_def)
    next
      case False': False
      with Cons.prems(2) out have "c \<in> set uniq" by simp
      from Cons.IH[OF u this] s show ?thesis
        by (auto simp: same_key_def)
    qed
  qed
qed

lemma dedup_distinct: "dedup cs seen = Inr out \<Longrightarrow> distinct (map (\<lambda>c. lower (ctext c)) out)"
proof (induction cs arbitrary: seen out)
  case Nil
  then show ?case by simp
next
  case (Cons d ds)
  from Cons.prems(1) obtain s where s: "ctext d = JStr s"
    by (cases "ctext d") simp_all
  show ?case
  proof (cases "lower s \<in> seen")
    case True
    with Cons s show ?thesis by simp
  next
    case False
    with Cons.prems(1) s obtain uniq where
      u: "dedup ds (insert (lower s) seen) = Inr uniq" and out: "out = with_text d s (kind d) # uniq"
      by (auto simp: rbind_eq_Inr)
    have "lower s \<notin> (\<lambda>c. lower (ctext c)) ` set uniq"
    proof
      assume "lower s \<in> (\<lambda>c. lower (ctext c)) ` set uniq"
      then obtain c where c: "c \<in> set uniq" "lower s = lower (ctext c)" by auto
      from dedup_first[OF u c(1)] c(2) show False by simp
    qed
    with Cons.IH[OF u] out show ?thesis
      by (simp add: with_text_def)
  qed
qed

lemma dedup_covers:
  "dedup cs seen = Inr out \<Longrightarrow> d \<in> set cs \<Longrightarrow>
   \<exists>s. ctext d = JStr s \<and> (lower s \<in> seen \<or> lower s \<in> (\<lambda>c. lower (ctext c)) ` set out)"
proof (induction cs arbitrary: seen out)
  case Nil
  then show ?case by simp
next
  case (Cons x xs)
  from Cons.prems(1) obtain s where s: "ctext x = JStr s"
    by (cases "ctext x") simp_all
  show ?case
  proof (cases "lower s \<in> seen")
    case True
    with Cons.prems s have r: "dedup xs seen = Inr out" by simp
    show ?thesis
    proof (cases "d = x")
      case True
      with s \<open>lower s \<in> seen\<close> show ?thesis by simp
    next
      case False
      with Cons.prems(2) have "d \<in> set xs" by simp
      from Cons.IH[OF r this] show ?thesis .
    qed
  next
    case False
    with Cons.prems(1) s obtain uniq where
      u: "dedup xs (insert (lower s) seen) = Inr uniq" and out: "out = with_text x s (kind x) # uniq"
      by (auto simp: rbind_eq_Inr)
    show ?thesis
    proof (cases "d = x")
      case True
      with s out show ?thesis by (simp add: with_text_def)
    next
      case False
      with Cons.prems(2) have "d \<in> set xs" by simp
      from Cons.IH[OF u this] out show ?thesis by (auto simp: with_text_def)
    qed
  qed
qed

lemma dedup_subseq: "dedup cs seen = Inr out \<Longrightarrow> subseq (map raw out) cs"
proof (induction cs arbitrary: seen out)
  case Nil
  then show ?case by simp
next
  case (Cons d ds)
  from Cons.prems(1) obtain s where s: "ctext d = JStr s"
    by (cases "ctext d") simp_all
  show ?case
  proof (cases "lower s \<in> seen")
    case True
    with Cons.prems s have "dedup ds seen = Inr out" by simp
    from Cons.IH[OF this] show ?thesis by (rule list_emb_Cons)
  next
    case False
    with Cons.prems(1) s obtain uniq where
      u: "dedup ds (insert (lower s) seen) = Inr uniq" and out: "out = with_text d s (kind d) # uniq"
      by (auto simp: rbind_eq_Inr)
    from Cons.IH[OF u] out s show ?thesis
      by (simp add: raw_with_text)
  qed
qed


text \<open>
  Claim C7.  Whenever the Candidate Builder returns, no two candidates of its output have
  the same lower-cased text; the output is a subsequence of the emission order
  (categories, then members with their tags and reviews, then manual data), every emitted
  candidate is represented by an output candidate with its key, and each output candidate
  is the first emitted candidate with its key.
\<close>

theorem build_candidates_dedup:
  assumes "build_candidates rows site_data = Inr out"
  shows "distinct (map (\<lambda>c. lower (ctext c)) out) \<and>
         (\<exists>emitted. emit_candidates rows site_data = Inr emitted \<and>
            subseq (map raw out) emitted \<and>
            (\<forall>d\<in>set emitted. \<exists>c\<in>set out. same_key (lower (ctext c)) d) \<and>
            (\<forall>c\<in>set out. find (same_key (lower (ctext c))) emitted = Some (raw c)))"
proof -
  from assms obtain emitted where
    e: "emit_candidates rows site_data = Inr emitted" and d: "dedup emitted {} = Inr out"
    by (auto simp: build_candidates_def rbind_eq_Inr)
  have "\<forall>x\<in>set emitted. \<exists>c\<in>set out. same_key (lower (ctext c)) x"
  proof
    fix x assume "x \<in> set emitted"
    from dedup_covers[OF d this] show "\<exists>c\<in>set out. same_key (lower (ctext c)) x"
      by (auto simp: same_key_def)
  qed
  moreover have "\<forall>c\<in>set out. find (same_key (lower (ctext c))) emitted = Some (raw c)"
    using dedup_first[OF d] by blast
  ultimately show ?thesis
    using e dedup_distinct[OF d] dedup_subseq[OF d] by blast
qed

theorem build_candidates_dedup_witness:
  "map_sum id (map (\<lambda>c. (ctext c, kind c))) (build_candidates dup_rows dup_catalog)
     = Inr [(''Plumber'', Category), (''Drain'', Tag)] \<and>
   distinct (map (\<lambda>c. lower (ctext c)) (projr (build_candidates dup_rows dup_catalog)))"
proof -
  have b: "\<exists>out. build_candidates dup_rows dup_catalog = Inr out"
    by (simp add: dup_rows_def dup_catalog_def build_simps)
  then obtain out where out: "build_candidates dup_rows dup_catalog = Inr out" ..
  have "map_sum id (map (\<lambda>c. (ctext c, kind c))) (build_candidates dup_rows dup_catalog)
     = Inr [(''Plumber'', Category), (''Drain'', Tag)]"
    by (simp add: dup_rows_def dup_catalog_def build_simps)
  with build_candidates_dedup[OF out] out show ?thesis by simp
qed

section \<open>The returned suggestion list\<close>

lemma dedup_limit_ok:
  "distinct (map lower final) \<Longrightarrow> lower ` set final \<subseteq> seen \<Longrightarrow> length final < 5 \<Longrightarrow>
   distinct (map lower (dedup_limit ss seen final)) \<and> length (dedup_limit ss seen final) \<le> 5"
proof (induction ss arbitrary: seen final)
  case Nil
  then show ?case by simp
next
  case (Cons s ss)
  show ?case
  proof (cases "lower s \<in> seen")
    case True
    with Cons.prems Cons.IH[of final seen] show ?thesis by simp
  next
    case False
    let ?final = "final @ [s]"
    let ?seen = "insert (lower s) seen"
    have d: "distinct (map lower ?final)" using Cons.prems False by auto
    have sub: "lower ` set ?final \<subseteq> ?seen" using Cons.prems by auto
    show ?thesis
    proof (cases "length ?final \<ge> 5")
      case True
      with False d Cons.prems(3) show ?thesis by (simp add: Let_def)
    next
      case F: False
      then have "length ?final < 5" by simp
      from Cons.IH[OF d sub this] False F show ?thesis by (simp add: Let_def)
    qed
  qed
qed

lemma dedup_limit_subset: "set (dedup_limit ss seen final) \<subseteq> set final \<union> set ss"
proof (induction ss arbitrary: seen final)
  case Nil
  then show ?case by simp
next
  case (Cons s ss)
  have a: "set (dedup_limit ss seen final) \<subseteq> set final \<union> set ss"
    and b: "set (dedup_limit ss (insert (lower s) seen) (final @ [s])) \<subseteq> set (final @ [s]) \<union> set ss"
    by (rule Cons.IH)+
  from a b show ?case by (auto simp: Let_def)
qed

text \<open>When the builder yields no candidate there is no manual category or profession,
  so the cold-start path returns only the fixed fallback.\<close>

lemma rmap_member:
  "rmap f xs = Inr ys \<Longrightarrow> x \<in> set xs \<Longrightarrow> \<exists>y\<in>set ys. f x = Inr y"
  by (induction xs arbitrary: ys) (auto simp: rbind_eq_Inr)

lemma rmap_length: "rmap f xs = Inr ys \<Longrightarrow> length ys = length xs"
  by (induction xs arbitrary: ys) (auto simp: rbind_eq_Inr)

lemma dedup_empty: "dedup cs seen = Inr [] \<Longrightarrow> seen = {} \<Longrightarrow> cs = []"
  using dedup_covers[of cs seen "[]"] by (cases cs) auto

lemma manual_named_nonempty:
  "fst r = ''category'' \<or> fst r = ''profession'' \<Longrightarrow> manual_candidates r \<noteq> Inr []"
  by (cases "dict_get (snd r) ''name'' (JStr [])") (auto simp: manual_candidates_def Let_def)

lemma no_candidates_no_names:
  assumes "build_candidates rows site_data = Inr []"
  shows "get_manual_data rows ''category'' = [] \<and> get_manual_data rows ''profession'' = []"
proof -
  from assms obtain emitted where
    e: "emit_candidates rows site_data = Inr emitted" and d: "dedup emitted {} = Inr []"
    by (auto simp: build_candidates_def rbind_eq_Inr)
  from dedup_empty[OF d] have "emitted = []" by simp
  with e obtain mc where mc: "rmap manual_candidates rows = Inr mc" and c: "concat mc = []"
    by (auto simp: emit_candidates_def rbind_eq_Inr)
  have "\<And>r. r \<in> set rows \<Longrightarrow> \<not> (fst r = ''category'' \<or> fst r = ''profession'')"
  proof
    fix r assume r: "r \<in> set rows" and t: "fst r = ''category'' \<or> fst r = ''profession''"
    from rmap_member[OF mc r] obtain y where y: "y \<in> set mc" "manual_candidates r = Inr y" by auto
    from c y(1) have "y = []" by auto
    with y(2) manual_named_nonempty[OF t] show False by simp
  qed
  then show ?thesis
    by (auto simp: get_manual_data_def filter_empty_conv)
qed

lemma cold_start_fallback:
  "build_candidates rows site_data = Inr [] \<Longrightarrow>
   cold_start rows = Inr [JStr ''Popular services near you'']"
  by (simp add: no_candidates_no_names cold_start_def)

lemma finish_request_well_formed:
  "finish_request e w k q u dbg city unsorted = ((suggs, cds, t), w') \<Longrightarrow> well_formed suggs"
  using dedup_limit_ok[of "[]" "{}" "top_suggestions (sort_key (\<lambda>x. - fst (snd x)) unsorted) city (detect_intent q)"]
  by (auto simp: finish_request_def Let_def well_formed_def)

lemma finish_request_cache:
  "finish_request e w k q u dbg city unsorted = ((suggs, cds, t), w') \<Longrightarrow>
   SUGGESTION_CACHE w' k' = Some entry \<Longrightarrow>
   SUGGESTION_CACHE w k' = Some entry \<or> cached_suggestions entry = suggs"
  by (auto simp: finish_request_def Let_def split: if_splits)

lemma hybrid_rank_cache:
  "hybrid_rank e w q cands = (r, w1) \<Longrightarrow> SUGGESTION_CACHE w1 = SUGGESTION_CACHE w"
  by (auto simp: hybrid_rank_def Let_def split: sum.splits)

lemma cache_okD:
  "cache_ok w \<Longrightarrow> SUGGESTION_CACHE w k = Some entry \<Longrightarrow> well_formed (cached_suggestions entry)"
  unfolding cache_ok_def by blast

lemma rank_pipeline_ok:
  assumes "cache_ok w"
    and "rank_pipeline e w k q sd u h la lo dbg cands = (r, w')"
  shows "cache_ok w' \<and> (\<forall>suggs cds t. r = Inr (suggs, cds, t) \<longrightarrow> well_formed suggs)"
proof (cases "hybrid_rank e w q cands")
  case (Pair hr w1)
  note c1 = hybrid_rank_cache[OF Pair]
  show ?thesis
  proof (cases hr)
    case (Inl err)
    with Pair assms c1 show ?thesis by (auto simp: rank_pipeline_def cache_ok_def)
  next
    case (Inr ranked)
    show ?thesis
    proof (cases "boost_ranked e w1 sd u h la lo (detect_city e q) ranked")
      case (Inl err)
      with Pair Inr assms c1 show ?thesis by (auto simp: rank_pipeline_def cache_ok_def)
    next
      case unsorted: (Inr unsorted)
      obtain suggs cds t w2 where f: "finish_request e w1 k q u dbg (detect_city e q) unsorted = ((suggs, cds, t), w2)"
        by (metis prod.exhaust)
      with Pair Inr unsorted assms(2) have r: "r = Inr (suggs, cds, t)" "w' = w2"
        by (simp_all add: rank_pipeline_def)
      have wf: "well_formed suggs" by (rule finish_request_well_formed[OF f])
      have "cache_ok w2"
        unfolding cache_ok_def
      proof (intro allI impI)
        fix k' entry assume "SUGGESTION_CACHE w2 k' = Some entry"
        from finish_request_cache[OF f this]
        have "SUGGESTION_CACHE w k' = Some entry \<or> cached_suggestions entry = suggs"
          by (simp add: c1)
        then show "well_formed (cached_suggestions entry)"
          using cache_okD[OF assms(1), of k' entry] wf by blast
      qed
      with r wf show ?thesis by simp
    qed
  qed
qed

lemma rank_candidates_ok:
  assumes "cache_ok w"
    and "rank_candidates e w q sd u h la lo dbg = (r, w')"
  shows "cache_ok w' \<and> (\<forall>suggs cds t. r = Inr (suggs, cds, t) \<longrightarrow> well_formed suggs)"
proof (cases "cache_key_of q sd u la lo")
  case (Inl err)
  with assms show ?thesis by (auto simp: rank_candidates_def)
next
  case (Inr k)
  show ?thesis
  proof (cases "cache_lookup e w k")
    case (Some cached)
    then have "SUGGESTION_CACHE w k = Some cached"
      by (auto simp: cache_lookup_def split: option.splits if_splits)
    then have "well_formed (cached_suggestions cached)" by (rule cache_okD[OF assms(1)])
    with Inr Some assms show ?thesis by (auto simp: rank_candidates_def)
  next
    case None
    show ?thesis
    proof (cases "build_candidates (manual_data e) sd")
      case (Inl err)
      with Inr None assms show ?thesis by (auto simp: rank_candidates_def)
    next
      case cands: (Inr cands)
      show ?thesis
      proof (cases "cands = []")
        case True
        with cands have "cold_start (manual_data e) = Inr [JStr ''Popular services near you'']"
          by (simp add: cold_start_fallback)
        moreover have "well_formed [JStr ''Popular services near you'']"
          unfolding well_formed_def by (intro conjI exI[of _ "[''Popular services near you'']"]) simp_all
        ultimately show ?thesis using Inr None cands True assms
          by (auto simp: rank_candidates_def)
      next
        case False
        with Inr None cands assms(2)
        have "rank_pipeline e w k q sd u h la lo dbg cands = (r, w')"
          by (simp add: rank_candidates_def)
        from rank_pipeline_ok[OF assms(1) this] show ?thesis .
      qed
    qed
  qed
qed

lemma reachable_cache_ok: "reachable w \<Longrightarrow> cache_ok w"
proof (induction rule: reachable.induct)
  case (start w)
  then show ?case by (simp add: cache_ok_def)
next
  case (rank w e q sd u h la lo dbg)
  then show ?case
    using rank_candidates_ok[of w e q sd u h la lo dbg] by (metis prod.collapse)
next
  case (other w w')
  then show ?case by (simp add: cache_ok_def)
qed

text \<open>
  Claim C4.  In every state of the process, a rank request that returns (from the cache,
  from the cold-start path or from the pipeline) returns at most five suggestions, all of
  them strings, no two of them equal when compared case-insensitively.
\<close>

theorem suggestions_capped_and_distinct:
  assumes "reachable w"
    and "rank_candidates e w q sd u h la lo dbg = (Inr (suggs, cds, t), w')"
  shows "length suggs \<le> 5 \<and> (\<exists>ss. suggs = map JStr ss \<and> distinct (map lower ss))"
  using rank_candidates_ok[OF reachable_cache_ok[OF assms(1)] assms(2)]
  by (simp add: well_formed_def)

text \<open>The sample request, run once in the fresh process.\<close>

lemma sample_request_run:
  "\<exists>cds t w1 entry.
     sample_request sample_env fresh_world =
       (Inr ([JStr ''Top-rated Acme Plumbing near you'', JStr ''Best Acme Plumbing in [City]'',
              JStr ''Trusted Acme Plumbing nearby'', JStr ''Top-rated plumber near you'',
              JStr ''Best plumber in [City]''], cds, t), w1) \<and>
     encode_calls w1 = 1 \<and> bm25_calls w1 = 1 \<and>
     SUGGESTION_CACHE w1 (''plumber near me'', JStr ''u1'', JNull, JNull, ''hire'', JInt 50)
       = Some entry \<and>
     cached_ts entry = 1000"
  by (simp add: sample_request_def sample_env_def fresh_world_def sample_catalog_def
        build_simps rank_simps)

theorem suggestions_capped_and_distinct_witness:
  "reachable fresh_world \<and>
   map_sum id fst (fst (sample_request sample_env fresh_world)) =
     Inr [JStr ''Top-rated Acme Plumbing near you'', JStr ''Best Acme Plumbing in [City]'',
          JStr ''Trusted Acme Plumbing nearby'', JStr ''Top-rated plumber near you'',
          JStr ''Best plumber in [City]''] \<and>
   length (fst (projr (fst (sample_request sample_env fresh_world)))) \<le> 5"
proof -
  have r: "reachable fresh_world"
    by (rule reachable.start) (simp add: fresh_world_def)
  from sample_request_run obtain cds t w1 where
    e: "sample_request sample_env fresh_world =
     (Inr ([JStr ''Top-rated Acme Plumbing near you'', JStr ''Best Acme Plumbing in [City]'',
           JStr ''Trusted Acme Plumbing nearby'', JStr ''Top-rated plumber near you'',
           JStr ''Best plumber in [City]''], cds, t), w1)" by blast
  from suggestions_capped_and_distinct[OF r e[unfolded sample_request_def]] e r
  show ?thesis by simp
qed

text \<open>The endpoint moves the process from one such state to another: after the rank
  request it only appends to the history table and bumps the learning counters.\<close>

lemma save_search_interaction_cache:
  "SUGGESTION_CACHE (snd (save_search_interaction e w u q suggs loc)) = SUGGESTION_CACHE w"
  by (simp add: save_search_interaction_def Let_def split: sum.splits)

lemma record_ab_variant_cache:
  "SUGGESTION_CACHE (record_ab_variant e w v u q) = SUGGESTION_CACHE w"
  by (simp add: record_ab_variant_def Let_def)

lemma suggest_reachable:
  assumes "reachable w"
  shows "reachable (snd (suggest e w au hv data))"
proof (cases au)
  case Denied
  with assms show ?thesis by (simp add: suggest_def)
next
  case RateLimited
  with assms show ?thesis by (simp add: suggest_def)
next
  case Granted
  show ?thesis
  proof (cases "read_args hv data")
    case (Inl err)
    with Granted assms show ?thesis by (simp add: suggest_def)
  next
    case (Inr a)
    show ?thesis
    proof (cases "arg_query a = []")
      case True
      with Granted Inr assms show ?thesis by (simp add: suggest_def)
    next
      case False
      let ?r = "rank_candidates e w (arg_query a) (arg_site_data a) (arg_user_id a)
                  (arg_history a) (arg_user_lat a) (arg_user_lon a) (arg_debug a)"
      have r1: "reachable (snd ?r)" using assms by (rule reachable.rank)
      show ?thesis
      proof (cases "fst ?r")
        case (Inl err)
        with Granted Inr False r1 show ?thesis
          by (auto simp: suggest_def split: prod.splits)
      next
        case res: (Inr res)
        obtain suggs cds t where res': "res = (suggs, cds, t)" by (cases res) auto
        let ?s = "save_search_interaction e (snd ?r) (arg_user_id a) (arg_query a) suggs
                    (arg_location a)"
        have r2: "reachable (snd ?s)"
          using r1 save_search_interaction_cache by (rule reachable.other)
        have r3: "reachable (record_ab_variant e (snd ?s) (arg_ab_variant a) (arg_user_id a)
                    (arg_query a))"
          using r2 record_ab_variant_cache by (rule reachable.other)
        from Granted Inr False res res' r2 r3 show ?thesis
          by (auto simp: suggest_def split: prod.splits sum.splits)
      qed
    qed
  qed
qed

section \<open>The result cache\<close>

lemma rank_candidates_hit:
  assumes "cache_key_of q sd u la lo = Inr k"
    and "cache_lookup e w k = Some cached"
  shows "rank_candidates e w q sd u h la lo dbg =
           (Inr (cached_suggestions cached, cached_cards cached,
                 (if dbg then (case cached_debug cached of None \<Rightarrow> NoDebug | Some d \<Rightarrow> DebugTrace d)
                  else DebugTuple (cached_suggestions cached) (cached_cards cached))), w)"
  using assms by (simp add: rank_candidates_def)

lemma finish_request_stores:
  "finish_request e w k q u dbg city unsorted = ((suggs, cds, t), w') \<Longrightarrow>
   \<exists>entry. SUGGESTION_CACHE w' k = Some entry \<and> cached_ts entry = now_ts e \<and>
      cached_suggestions entry = suggs \<and> cached_cards entry = cds"
  by (auto simp: finish_request_def Let_def)

lemma rank_pipeline_stores:
  assumes "rank_pipeline e w k q sd u h la lo dbg cands = (Inr (suggs, cds, t), w')"
  shows "\<exists>entry. SUGGESTION_CACHE w' k = Some entry \<and> cached_ts entry = now_ts e \<and>
      cached_suggestions entry = suggs \<and> cached_cards entry = cds"
proof -
  from assms obtain ranked w1 unsorted where
    "finish_request e w1 k q u dbg (detect_city e q) unsorted = ((suggs, cds, t), w')"
    by (auto simp: rank_pipeline_def split: prod.splits sum.splits)
  then show ?thesis by (rule finish_request_stores)
qed

text \<open>After a request that returned, a cache entry for its key that is fresh at the
  request's time holds the returned lists.\<close>

lemma returned_is_cached:
  assumes key: "cache_key_of q sd u la lo = Inr k"
    and first: "rank_candidates e w q sd u h la lo dbg = (Inr (suggs, cds, t), w')"
    and stored: "SUGGESTION_CACHE w' k = Some entry"
    and fresh: "now_ts e - cached_ts entry \<le> SUGGESTION_CACHE_TTL_SECONDS"
  shows "cached_suggestions entry = suggs \<and> cached_cards entry = cds"
proof (cases "cache_lookup e w k")
  case (Some cached)
  from rank_candidates_hit[OF key Some, of h dbg] first
  have "suggs = cached_suggestions cached" "cds = cached_cards cached" "w' = w" by simp_all
  moreover from Some have "SUGGESTION_CACHE w k = Some cached"
    by (auto simp: cache_lookup_def split: option.splits if_splits)
  ultimately show ?thesis using stored by simp
next
  case None
  show ?thesis
  proof (cases "build_candidates (manual_data e) sd")
    case (Inl err)
    with key None first show ?thesis by (simp add: rank_candidates_def)
  next
    case (Inr cands)
    show ?thesis
    proof (cases "cands = []")
      case True
      with key None Inr first have "w' = w"
        by (auto simp: rank_candidates_def split: sum.splits)
      with stored fresh None show ?thesis by (simp add: cache_lookup_def)
    next
      case False
      with key None Inr first
      have "rank_pipeline e w k q sd u h la lo dbg cands = (Inr (suggs, cds, t), w')"
        by (simp add: rank_candidates_def)
      from rank_pipeline_stores[OF this] stored show ?thesis by auto
    qed
  qed
qed

text \<open>
  Claim C5, as amended.  Take two rank requests with the same query, user id, coordinates
  and configured radius (hence the same cache key \<open>k\<close>), whatever their catalogs,
  histories and debug flags.  If the first returned and its result is held in the cache
  afterwards (an entry for \<open>k\<close> that is no older than the TTL at the first request:
  stored by that request's full ranking pass, or the entry it was served from), the
  entry is still there when the second request arrives, and the second request comes no
  later than the TTL after the entry's creation, then the second request returns the
  same suggestion and card lists and invokes neither the embedding model nor the BM25
  scorer.
\<close>

theorem cached_result_served:
  assumes key1: "cache_key_of q sd1 u la lo = Inr k"
    and key2: "cache_key_of q sd2 u la lo = Inr k"
    and first: "rank_candidates e1 w q sd1 u h1 la lo dbg1 = (Inr (suggs, cds, t1), w1)"
    and stored: "SUGGESTION_CACHE w1 k = Some entry"
    and fresh1: "now_ts e1 - cached_ts entry \<le> SUGGESTION_CACHE_TTL_SECONDS"
    and kept: "SUGGESTION_CACHE w2 k = SUGGESTION_CACHE w1 k"
    and fresh2: "now_ts e2 - cached_ts entry \<le> SUGGESTION_CACHE_TTL_SECONDS"
  shows "(\<exists>t2. fst (rank_candidates e2 w2 q sd2 u h2 la lo dbg2) = Inr (suggs, cds, t2)) \<and>
         encode_calls (snd (rank_candidates e2 w2 q sd2 u h2 la lo dbg2)) = encode_calls w2 \<and>
         bm25_calls (snd (rank_candidates e2 w2 q sd2 u h2 la lo dbg2)) = bm25_calls w2"
proof -
  from returned_is_cached[OF key1 first stored fresh1]
  have c: "cached_suggestions entry = suggs" "cached_cards entry = cds" by simp_all
  from stored kept fresh2 have "cache_lookup e2 w2 k = Some entry"
    by (simp add: cache_lookup_def)
  from rank_candidates_hit[OF key2 this, of h2 dbg2] c show ?thesis by simp
qed

lemma sample_key:
  "cache_key_of ''plumber near me'' sample_catalog (JStr ''u1'') JNull JNull =
     Inr (''plumber near me'', JStr ''u1'', JNull, JNull, ''hire'', JInt 50)"
  by (simp add: cache_key_of_def sample_catalog_def detect_intent_def lower_simps)

lemma empty_key:
  "cache_key_of ''plumber near me'' empty_catalog (JStr ''u1'') JNull JNull =
     Inr (''plumber near me'', JStr ''u1'', JNull, JNull, ''hire'', JInt 50)"
  by (simp add: cache_key_of_def empty_catalog_def detect_intent_def lower_simps)

theorem cached_result_served_witness:
  "map_sum id fst (fst (sample_request sample_env fresh_world)) =
     Inr [JStr ''Top-rated Acme Plumbing near you'', JStr ''Best Acme Plumbing in [City]'',
          JStr ''Trusted Acme Plumbing nearby'', JStr ''Top-rated plumber near you'',
          JStr ''Best plumber in [City]''] \<and>
   map_sum id fst
     (fst (rank_candidates later_env (snd (sample_request sample_env fresh_world))
             ''plumber near me'' empty_catalog (JStr ''u1'') (JArr [JStr ''dentist'']) JNull JNull True)) =
     Inr [JStr ''Top-rated Acme Plumbing near you'', JStr ''Best Acme Plumbing in [City]'',
          JStr ''Trusted Acme Plumbing nearby'', JStr ''Top-rated plumber near you'',
          JStr ''Best plumber in [City]''] \<and>
   encode_calls
     (snd (rank_candidates later_env (snd (sample_request sample_env fresh_world))
             ''plumber near me'' empty_catalog (JStr ''u1'') (JArr [JStr ''dentist'']) JNull JNull True))
     = 1 \<and>
   bm25_calls
     (snd (rank_candidates later_env (snd (sample_request sample_env fresh_world))
             ''plumber near me'' empty_catalog (JStr ''u1'') (JArr [JStr ''dentist'']) JNull JNull True))
     = 1"
proof -
  let ?suggs = "[JStr ''Top-rated Acme Plumbing near you'', JStr ''Best Acme Plumbing in [City]'',
          JStr ''Trusted Acme Plumbing nearby'', JStr ''Top-rated plumber near you'',
          JStr ''Best plumber in [City]'']"
  from sample_request_run obtain cds t w1 entry where
    e: "sample_request sample_env fresh_world = (Inr (?suggs, cds, t), w1)"
    and calls: "encode_calls w1 = 1" "bm25_calls w1 = 1"
    and st: "SUGGESTION_CACHE w1 (''plumber near me'', JStr ''u1'', JNull, JNull, ''hire'', JInt 50)
               = Some entry"
    and ts: "cached_ts entry = 1000" by blast
  have f1: "now_ts sample_env - cached_ts entry \<le> SUGGESTION_CACHE_TTL_SECONDS"
    by (simp add: ts sample_env_def SUGGESTION_CACHE_TTL_SECONDS_def)
  have f2: "now_ts later_env - cached_ts entry \<le> SUGGESTION_CACHE_TTL_SECONDS"
    by (simp add: ts later_env_def sample_env_def SUGGESTION_CACHE_TTL_SECONDS_def)
  from cached_result_served[OF sample_key empty_key e[unfolded sample_request_def] st f1 refl f2,
      of "JArr [JStr ''dentist'']" True] e calls
  show ?thesis by auto
qed

text \<open>The two requests of the counterexample, each run once.\<close>

lemma cold_request_run:
  "rank_candidates sample_env fresh_world ''plumber near me'' empty_catalog
     (JStr ''u1'') (JArr []) JNull JNull False =
   (Inr ([JStr ''Popular services near you''], [],
         DebugTuple [JStr ''Popular services near you''] []), fresh_world)"
  by (simp add: sample_env_def fresh_world_def empty_catalog_def build_simps rank_simps)

lemma later_request_run:
  "\<exists>cds t w1.
     rank_candidates later_env fresh_world ''plumber near me'' sample_catalog
       (JStr ''u1'') (JArr []) JNull JNull False =
       (Inr ([JStr ''Top-rated Acme Plumbing near you'', JStr ''Best Acme Plumbing in [City]'',
              JStr ''Trusted Acme Plumbing nearby'', JStr ''Top-rated plumber near you'',
              JStr ''Best plumber in [City]''], cds, t), w1) \<and>
     encode_calls w1 = 1 \<and> bm25_calls w1 = 1"
  by (simp add: later_env_def sample_env_def fresh_world_def sample_catalog_def
        build_simps rank_simps)

text \<open>Claim C5 as stated fails: a cold-start result is not stored.  Two requests with the
  same key ten seconds apart, the first over an empty catalog and the second over the
  sample catalog: the first returns the fallback, the second runs the pipeline, invokes
  both scorers and returns other suggestions.\<close>

theorem cold_start_not_cached:
  "cache_key_of ''plumber near me'' empty_catalog (JStr ''u1'') JNull JNull =
     cache_key_of ''plumber near me'' sample_catalog (JStr ''u1'') JNull JNull \<and>
   now_ts later_env - now_ts sample_env \<le> SUGGESTION_CACHE_TTL_SECONDS \<and>
   map_sum id fst
     (fst (rank_candidates sample_env fresh_world ''plumber near me'' empty_catalog
             (JStr ''u1'') (JArr []) JNull JNull False)) =
     Inr [JStr ''Popular services near you''] \<and>
   map_sum id fst
     (fst (rank_candidates later_env
             (snd (rank_candidates sample_env fresh_world ''plumber near me'' empty_catalog
                     (JStr ''u1'') (JArr []) JNull JNull False))
             ''plumber near me'' sample_catalog (JStr ''u1'') (JArr []) JNull JNull False)) =
     Inr [JStr ''Top-rated Acme Plumbing near you'', JStr ''Best Acme Plumbing in [City]'',
          JStr ''Trusted Acme Plumbing nearby'', JStr ''Top-rated plumber near you'',
          JStr ''Best plumber in [City]''] \<and>
   encode_calls
     (snd (rank_candidates later_env
             (snd (rank_candidates sample_env fresh_world ''plumber near me'' empty_catalog
                     (JStr ''u1'') (JArr []) JNull JNull False))
             ''plumber near me'' sample_catalog (JStr ''u1'') (JArr []) JNull JNull False)) =
     encode_calls fresh_world + 1 \<and>
   bm25_calls
     (snd (rank_candidates later_env
             (snd (rank_candidates sample_env fresh_world ''plumber near me'' empty_catalog
                     (JStr ''u1'') (JArr []) JNull JNull False))
             ''plumber near me'' sample_catalog (JStr ''u1'') (JArr []) JNull JNull False)) =
     bm25_calls fresh_world + 1"
proof -
  from later_request_run obtain cds t w1 where
    second: "rank_candidates later_env fresh_world ''plumber near me'' sample_catalog
       (JStr ''u1'') (JArr []) JNull JNull False =
       (Inr ([JStr ''Top-rated Acme Plumbing near you'', JStr ''Best Acme Plumbing in [City]'',
              JStr ''Trusted Acme Plumbing nearby'', JStr ''Top-rated plumber near you'',
              JStr ''Best plumber in [City]''], cds, t), w1)"
    and calls: "encode_calls w1 = 1" "bm25_calls w1 = 1" by blast
  have ttl: "now_ts later_env - now_ts sample_env \<le> SUGGESTION_CACHE_TTL_SECONDS"
    by (simp add: later_env_def sample_env_def SUGGESTION_CACHE_TTL_SECONDS_def)
  have none: "encode_calls fresh_world = 0" "bm25_calls fresh_world = 0"
    by (simp_all add: fresh_world_def)
  show ?thesis
    unfolding cold_request_run snd_conv second fst_conv
    by (simp add: ttl none calls sample_key empty_key)
qed

section \<open>The blacklist filter\<close>











section \<open>The whitelist\<close>

lemma whitelist_pass_id [simp]: "whitelist_pass whitelist t boost = boost"
  by (simp add: whitelist_pass_def)


















section \<open>Malformed catalog records\<close>

text \<open>A record with missing keys builds: every field has a default.\<close>

lemma member_missing_fields: "member_candidates (JObj []) = Inr []"
  by (simp add: member_candidates_def member_tags_def strip_def)

lemma category_missing_fields: "category_candidates (JObj []) = Inr []"
  by (simp add: category_candidates_def strip_def)

text \<open>A \<open>null\<close> in \<open>tags\<close> is read as the empty string by \<open>mem.get("tags") or ""\<close>.\<close>

lemma null_tags_default:
  "map_sum id (map ctext)
     (build_candidates []
        (JObj [(''members'',
                JArr [JObj [(''name'', JStr ''Al''), (''tags'', JNull)],
                      JObj [(''name'', JStr ''Bob'')]])])) = Inr [''Al'', ''Bob'']"
  by (simp add: build_simps)

text \<open>A rating that is not a number aborts the build as well.\<close>

lemma bad_rating_aborts:
  "build_candidates []
     (JObj [(''members'',
             JArr [JObj [(''name'', JStr ''Al''), (''rating'', JStr ''n/a'')],
                   JObj [(''name'', JStr ''Bob'')]])]) = Inl ValueError"
  by (simp add: build_simps float_of_str_def digit_of_def)

text \<open>
  Claim C8 at its failing input.  One member whose \<open>name\<close> is \<open>null\<close> makes the whole
  build raise: \<open>mem.get("name", "")\<close> returns \<open>None\<close>, which has no \<open>strip\<close>.  The
  other member, alone, builds.
\<close>

theorem null_name_aborts_build:
  "build_candidates [] null_name_catalog = Inl AttributeError \<and>
   map_sum id (map ctext) (build_candidates [] bob_catalog) = Inr [''Bob'']"
  by (simp add: null_name_catalog_def bob_catalog_def build_simps)

section \<open>A failed write to the interaction log\<close>

lemma save_fails_when_insert_fails:
  "\<not> db_insert_ok e \<Longrightarrow> save_search_interaction e w u q suggs loc = (Inl DatabaseError, w)"
  by (simp add: save_search_interaction_def)

lemma suggest_save_failure:
  assumes "read_args hv data = Inr a" and "arg_query a \<noteq> []"
    and "rank_candidates e w (arg_query a) (arg_site_data a) (arg_user_id a) (arg_history a)
           (arg_user_lat a) (arg_user_lon a) (arg_debug a) = (Inr r, w1)"
    and "\<not> db_insert_ok e"
  shows "suggest e w Granted hv data = (ServerError DatabaseError, w1)"
  using assms by (cases r) (simp add: suggest_def save_fails_when_insert_fails)

lemma sample_body_args:
  "read_args None sample_body =
     Inr \<lparr>arg_query = ''plumber near me'', arg_user_id = JStr ''u1'', arg_history = JArr [],
          arg_site_data = sample_catalog, arg_location = JStr [], arg_user_lat = JNull,
          arg_user_lon = JNull, arg_debug = False, arg_ab_variant = JNull\<rparr>"
  by (simp add: read_args_def sample_body_def strip_def is_space_def)

lemma readonly_request_run:
  "\<exists>r w1. sample_request readonly_env fresh_world = (Inr r, w1)"
  by (simp add: sample_request_def readonly_env_def sample_env_def fresh_world_def
        sample_catalog_def build_simps rank_simps)

text \<open>
  Claim C3 at its failing input.  The sample request, sent to \<open>/suggest\<close> while the
  store rejects the insert into \<open>search_history\<close>, is answered with the 500 of the
  handler's \<open>except\<close> clause; the suggestions that \<open>rank_candidates\<close> had returned are
  not sent.  With a working store the same request is answered with them.
\<close>

theorem interaction_log_failure_fails_request:
  "fst (suggest readonly_env fresh_world Granted None sample_body) = ServerError DatabaseError \<and>
   (case fst (suggest sample_env fresh_world Granted None sample_body) of
      Ok body \<Rightarrow> resp_suggestions body
    | _ \<Rightarrow> []) =
     [JStr ''Top-rated Acme Plumbing near you'', JStr ''Best Acme Plumbing in [City]'',
      JStr ''Trusted Acme Plumbing nearby'', JStr ''Top-rated plumber near you'',
      JStr ''Best plumber in [City]'']"
proof -
  from readonly_request_run obtain r w1 where
    "sample_request readonly_env fresh_world = (Inr r, w1)" by blast
  then have "suggest readonly_env fresh_world Granted None sample_body =
      (ServerError DatabaseError, w1)"
    by (intro suggest_save_failure[OF sample_body_args])
       (simp_all add: sample_request_def readonly_env_def)
  moreover
  from sample_request_run obtain cds t w2 where
    "sample_request sample_env fresh_world =
       (Inr ([JStr ''Top-rated Acme Plumbing near you'', JStr ''Best Acme Plumbing in [City]'',
              JStr ''Trusted Acme Plumbing nearby'', JStr ''Top-rated plumber near you'',
              JStr ''Best plumber in [City]''], cds, t), w2)" by blast
  then have "(case fst (suggest sample_env fresh_world Granted None sample_body) of
      Ok body \<Rightarrow> resp_suggestions body
    | _ \<Rightarrow> []) =
     [JStr ''Top-rated Acme Plumbing near you'', JStr ''Best Acme Plumbing in [City]'',
      JStr ''Trusted Acme Plumbing nearby'', JStr ''Top-rated plumber near you'',
      JStr ''Best plumber in [City]'']"
    by (simp add: suggest_def sample_body_args sample_request_def save_search_interaction_def
          sample_env_def Let_def)
  ultimately show ?thesis by simp
qed

section \<open>The radius filter and the distance boost\<close>

text \<open>When the caller's coordinates are truthy and the candidate has coordinates, a
  candidate farther away than the configured radius is dropped, and one within 5 km (and
  within the radius) gets \<open>0.15\<close>.\<close>

lemma geo_boost_outside_radius:
  assumes "truthy (rc_user_lat rc)" "truthy (rc_user_lon rc)"
    and "latitude cand \<noteq> JNull" "longitude cand \<noteq> JNull"
    and "try_distance (rc_user_lat rc) (rc_user_lon rc) (latitude cand) (longitude cand) = Inr d"
    and "rc_radius_km rc = Some r" and "r < d"
  shows "geo_boost rc cand boost = Inr Dropped"
  using assms by (simp add: geo_boost_def Let_def)

lemma geo_boost_within_5km:
  assumes "truthy (rc_user_lat rc)" "truthy (rc_user_lon rc)"
    and "latitude cand \<noteq> JNull" "longitude cand \<noteq> JNull"
    and "try_distance (rc_user_lat rc) (rc_user_lon rc) (latitude cand) (longitude cand) = Inr d"
    and "d \<le> 5" and "rc_radius_km rc = Some r" and "d \<le> r"
  shows "geo_boost rc cand boost = Inr (Kept (boost + 0.15) (Some d))"
  using assms by (simp add: geo_boost_def Let_def)

text \<open>A caller's latitude or longitude of zero is falsy: the coordinate stage does
  nothing at all, whatever the candidate's distance.\<close>

lemma geo_boost_zero_latitude:
  "rc_user_lat rc = JInt 0 \<or> rc_user_lat rc = JFloat 0 \<or>
   rc_user_lon rc = JInt 0 \<or> rc_user_lon rc = JFloat 0 \<Longrightarrow>
   geo_boost rc cand boost = Inr (Kept boost None)"
  by (auto simp: geo_boost_def)

lemma distance_equator_to_oslo: "calculate_distance 0 10 60 10 = Inr (6371 * pi / 3)"
proof -
  have a: "(sin ((radians 60 - radians 0) / 2))\<^sup>2 +
           cos (radians 0) * cos (radians 60) * (sin ((radians 10 - radians 10) / 2))\<^sup>2 = 1 / 4"
    by (simp add: radians_def sin_30 power2_eq_square)
  have q: "sqrt (1 / 4) = 1 / 2"
    by (rule real_sqrt_unique) (simp_all add: power2_eq_square)
  have "arcsin (sin (pi / 6)) = pi / 6"
    by (rule arcsin_sin) (use pi_gt_zero in linarith)+
  then have h: "arcsin (1 / 2) = pi / 6"
    by (simp add: sin_30)
  have "calculate_distance 0 10 60 10 =
          rbind (py_sqrt (1 / 4)) (\<lambda>q. rbind (py_asin q) (\<lambda>h. Inr (2 * h * 6371)))"
    unfolding calculate_distance_def Let_def a by (rule refl)
  also have "\<dots> = Inr (6371 * pi / 3)"
    by (simp add: py_sqrt_def py_asin_def q h)
  finally show ?thesis .
qed

text \<open>
  Claim C1 at its failing input.  The caller is on the equator (latitude 0, longitude 10),
  the radius is 50 km and the only member is near Oslo, \<open>6371 \<pi> / 3\<close> km away.  The test
  \<open>user_lat and user_lon\<close> takes the latitude 0 for a missing one, the distance is never
  computed, and the member (it has no tags, so it is the only candidate) is returned as
  a card whose distance is \<open>None\<close>.
\<close>

theorem zero_latitude_skips_radius_filter:
  "try_distance (JInt 0) (JInt 10) (JInt 60) (JInt 10) = Inr (6371 * pi / 3) \<and>
   50 < 6371 * pi / 3 \<and>
   configured_radius oslo_catalog = Some 50 \<and>
   map_sum id (\<lambda>r. map (\<lambda>c. (card_title c, card_distance_km c)) (fst (snd r)))
     (fst (rank_candidates sample_env fresh_world ''plumber'' oslo_catalog (JStr ''u1'') (JArr [])
             (JInt 0) (JInt 10) False)) = Inr [(''Oslo Plumbing'', None)]"
proof -
  have d: "try_distance (JInt 0) (JInt 10) (JInt 60) (JInt 10) = Inr (6371 * pi / 3)"
    using distance_equator_to_oslo by (simp add: try_distance_def)
  have far: "50 < 6371 * pi / 3"
    using pi_ge_two by linarith
  have r: "configured_radius oslo_catalog = Some 50"
    by (simp add: configured_radius_def oslo_catalog_def)
  have run: "map_sum id (\<lambda>r. map (\<lambda>c. (card_title c, card_distance_km c)) (fst (snd r)))
     (fst (rank_candidates sample_env fresh_world ''plumber'' oslo_catalog (JStr ''u1'') (JArr [])
             (JInt 0) (JInt 10) False)) = Inr [(''Oslo Plumbing'', None)]"
    by (simp add: sample_env_def fresh_world_def oslo_catalog_def build_simps rank_simps)
  from d far r run show ?thesis by simp
qed

end
